theory Spec2Isabelle
  imports Complex_Main "HOL-Library.Char_ord" "HOL-Library.List_Lexorder" "HOL-Library.AList"
begin

section \<open>Budget Buddy: month records, their normalisation, totals and the year summary\<close>

text \<open>
  The development follows \<^verbatim>\<open>budget_buddy.py\<close>: the storage functions
  \<^verbatim>\<open>get_data_file\<close>, \<^verbatim>\<open>default_month_data\<close>, \<^verbatim>\<open>load_month_data\<close>,
  \<^verbatim>\<open>save_month_data\<close>, \<^verbatim>\<open>list_saved_months\<close>, \<^verbatim>\<open>aggregate_year\<close> and the
  helper \<^verbatim>\<open>calculate_totals\<close>.

  Conventions of the model.
  \<^item> A Python value read from or written to a JSON file is a \<open>pyval\<close>; a \<^verbatim>\<open>dict\<close> is an
    association list that is looked up with \<open>map_of\<close>.
  \<^item> A Python \<^verbatim>\<open>float\<close> is idealised as a real number: the rounding and overflow
    of float arithmetic, the infinities, NaN and the sign of zero are outside the model.
    The conversion \<^verbatim>\<open>float(i)\<close> of an \<^verbatim>\<open>int\<close> is modelled as Python computes it:
    rounded to the nearest double, ties to even, and \<^verbatim>\<open>OverflowError\<close> beyond the
    range of a double.
  \<^item> The builtin \<^verbatim>\<open>float\<close> applied to a \<^verbatim>\<open>str\<close> is a parameter
    \<open>fl :: string \<Rightarrow> real option\<close> of every function that converts: \<open>None\<close> stands for
    the \<^verbatim>\<open>ValueError\<close> of a string that is not a number.
  \<^item> An exception is a value \<open>Inl e\<close> of the result type \<open>error + 'a\<close>.
  \<^item> The directory \<^verbatim>\<open>budget_data\<close> is an association list from file names to
    contents. A content is the JSON document the file holds, or text that
    \<^verbatim>\<open>json.load\<close> rejects; \<^verbatim>\<open>json.dump\<close> followed by \<^verbatim>\<open>json.load\<close> gives the
    document back. Failures of the operating system (permissions, a full disk) are not
    modelled.
\<close>

subsection \<open>Python values and exceptions\<close>

datatype error = AttributeError | TypeError | ValueError | OverflowError | JSONDecodeError

datatype pyval =
    PNone
  | PBool bool
  | PInt int
  | PFloat real
  | PStr string
  | PList "pyval list"
  | PDict "(string \<times> pyval) list"

type_synonym 'a result = "error + 'a"

text \<open>Sequencing of two computations that may raise: the first exception wins.\<close>

definition ebind :: "'a result \<Rightarrow> ('a \<Rightarrow> 'b result) \<Rightarrow> 'b result" where
  "ebind m f = (case m of Inl e \<Rightarrow> Inl e | Inr v \<Rightarrow> f v)"

text \<open>A list comprehension \<^verbatim>\<open>[f(x) for x in xs]\<close> whose body may raise.\<close>

fun map_err :: "('a \<Rightarrow> 'b result) \<Rightarrow> 'a list \<Rightarrow> 'b list result" where
  "map_err f [] = Inr []"
| "map_err f (x # xs) =
     (case f x of
        Inl e \<Rightarrow> Inl e
      | Inr y \<Rightarrow> (case map_err f xs of Inl e \<Rightarrow> Inl e | Inr ys \<Rightarrow> Inr (y # ys)))"

text \<open>Truth value of a Python object, as \<^verbatim>\<open>or\<close> and \<^verbatim>\<open>bool\<close> test it.\<close>

fun truthy :: "pyval \<Rightarrow> bool" where
  "truthy PNone = False"
| "truthy (PBool b) = b"
| "truthy (PInt i) = (i \<noteq> 0)"
| "truthy (PFloat r) = (r \<noteq> 0)"
| "truthy (PStr s) = (s \<noteq> [])"
| "truthy (PList xs) = (xs \<noteq> [])"
| "truthy (PDict kvs) = (kvs \<noteq> [])"

text \<open>\<^verbatim>\<open>a or b\<close>\<close>

definition py_or :: "pyval \<Rightarrow> pyval \<Rightarrow> pyval" where
  "py_or a b = (if truthy a then a else b)"

text \<open>The number of binary digits of a natural number (\<^verbatim>\<open>int.bit_length\<close>).\<close>

fun bit_len :: "nat \<Rightarrow> nat" where
  "bit_len n = (if n = 0 then 0 else Suc (bit_len (n div 2)))"

declare bit_len.simps [simp del]

text \<open>
  \<^verbatim>\<open>float(i)\<close> of an \<^verbatim>\<open>int\<close>: the magnitude keeps its 53 leading binary digits
  (all of them when it has no more), rounded to nearest with ties to even; a result of
  \<open>2 ^ 1024\<close> or more is beyond the largest double and raises \<^verbatim>\<open>OverflowError\<close>.
\<close>

definition double_of_int :: "int \<Rightarrow> real result" where
  "double_of_int i =
     (let n = nat \<bar>i\<bar>;
          sh = bit_len n - 53;
          q = n div 2 ^ sh;
          r = n mod 2 ^ sh;
          q' = (if 2 ^ sh < 2 * r \<or> (2 * r = 2 ^ sh \<and> odd q) then q + 1 else q);
          m = q' * 2 ^ sh
      in if 2 ^ 1024 \<le> m then Inl OverflowError
         else Inr (if i < 0 then - real m else real m))"

text \<open>\<^verbatim>\<open>float(v)\<close>: a number converts, a string is parsed, anything else is a type error.\<close>

fun py_float :: "(string \<Rightarrow> real option) \<Rightarrow> pyval \<Rightarrow> real result" where
  "py_float fl (PFloat r) = Inr r"
| "py_float fl (PInt i) = double_of_int i"
| "py_float fl (PBool b) = Inr (if b then 1 else 0)"
| "py_float fl (PStr s) = (case fl s of Some r \<Rightarrow> Inr r | None \<Rightarrow> Inl ValueError)"
| "py_float fl PNone = Inl TypeError"
| "py_float fl (PList xs) = Inl TypeError"
| "py_float fl (PDict kvs) = Inl TypeError"

text \<open>\<^verbatim>\<open>x.get(k, dflt)\<close>: only a dict has the method.\<close>

fun dict_get :: "pyval \<Rightarrow> string \<Rightarrow> pyval \<Rightarrow> pyval result" where
  "dict_get (PDict kvs) k dflt = Inr (case map_of kvs k of Some v \<Rightarrow> v | None \<Rightarrow> dflt)"
| "dict_get PNone k dflt = Inl AttributeError"
| "dict_get (PBool b) k dflt = Inl AttributeError"
| "dict_get (PInt i) k dflt = Inl AttributeError"
| "dict_get (PFloat r) k dflt = Inl AttributeError"
| "dict_get (PStr s) k dflt = Inl AttributeError"
| "dict_get (PList xs) k dflt = Inl AttributeError"

text \<open>
  \<^verbatim>\<open>for x in v\<close>: a list yields its elements, a dict its keys, a string its
  characters (each a string of length one); nothing else is iterable.
\<close>

fun py_iter :: "pyval \<Rightarrow> pyval list result" where
  "py_iter (PList xs) = Inr xs"
| "py_iter (PDict kvs) = Inr (map (\<lambda>kv. PStr (fst kv)) kvs)"
| "py_iter (PStr s) = Inr (map (\<lambda>c. PStr [c]) s)"
| "py_iter PNone = Inl TypeError"
| "py_iter (PBool b) = Inl TypeError"
| "py_iter (PInt i) = Inl TypeError"
| "py_iter (PFloat r) = Inl TypeError"

text \<open>\<^verbatim>\<open>sum(xs)\<close>: addition from the left, starting at 0.\<close>

definition py_sum :: "real list \<Rightarrow> real" where
  "py_sum xs = foldl (+) 0 xs"

text \<open>
  The expression \<^verbatim>\<open>float(x.get(k, 0.0) or 0.0)\<close>, which the source writes for every
  numeric field but a bill's amount.
\<close>

definition get_float :: "(string \<Rightarrow> real option) \<Rightarrow> pyval \<Rightarrow> string \<Rightarrow> real result" where
  "get_float fl x k = ebind (dict_get x k (PFloat 0)) (\<lambda>v. py_float fl (py_or v (PFloat 0)))"

subsection \<open>Storage\<close>

datatype file_content = Json pyval | Unparsable

type_synonym fs = "(string \<times> file_content) list"

definition get_data_file :: "string \<Rightarrow> string" where
  "get_data_file month_ym = ''budget_'' @ month_ym @ ''.json''"

definition default_month_data :: pyval where
  "default_month_data = PDict [
     (''rollover'', PFloat 0),
     (''debt'', PFloat 0),
     (''income_items'', PList [PDict [(''name'', PStr ''Paycheck''), (''amount'', PFloat 0)]]),
     (''bill_items'', PList [
        PDict [(''name'', PStr ''Rent/Mortgage''), (''amount'', PFloat 0), (''paid'', PBool False)],
        PDict [(''name'', PStr ''Utilities''), (''amount'', PFloat 0), (''paid'', PBool False)],
        PDict [(''name'', PStr ''Internet''), (''amount'', PFloat 0), (''paid'', PBool False)]]),
     (''expense_items'', PList [
        PDict [(''name'', PStr ''Groceries''), (''spent'', PFloat 0)],
        PDict [(''name'', PStr ''Dining Out''), (''spent'', PFloat 0)],
        PDict [(''name'', PStr ''Transportation''), (''spent'', PFloat 0)]]),
     (''savings_items'', PList [
        PDict [(''name'', PStr ''Emergency Fund''), (''saved'', PFloat 0)],
        PDict [(''name'', PStr ''Retirement''), (''saved'', PFloat 0)]])]"

text \<open>\<^verbatim>\<open>json.load(f)\<close>\<close>

fun json_load :: "file_content \<Rightarrow> pyval result" where
  "json_load (Json d) = Inr d"
| "json_load Unparsable = Inl JSONDecodeError"

text \<open>The four comprehension bodies of \<^verbatim>\<open>load_month_data\<close>.\<close>

definition income_item :: "(string \<Rightarrow> real option) \<Rightarrow> pyval \<Rightarrow> pyval result" where
  "income_item fl x =
     ebind (dict_get x ''name'' (PStr '''')) (\<lambda>name.
     ebind (get_float fl x ''amount'') (\<lambda>amount.
     Inr (PDict [(''name'', name), (''amount'', PFloat amount)])))"

text \<open>\<^verbatim>\<open>float(x.get("amount") or x.get("actual", 0.0) or 0.0)\<close>\<close>

definition bill_amount :: "(string \<Rightarrow> real option) \<Rightarrow> pyval \<Rightarrow> real result" where
  "bill_amount fl x =
     ebind (dict_get x ''amount'' PNone) (\<lambda>a.
       if truthy a then py_float fl a
       else ebind (dict_get x ''actual'' (PFloat 0)) (\<lambda>b. py_float fl (py_or b (PFloat 0))))"

definition bill_item :: "(string \<Rightarrow> real option) \<Rightarrow> pyval \<Rightarrow> pyval result" where
  "bill_item fl x =
     ebind (dict_get x ''name'' (PStr '''')) (\<lambda>name.
     ebind (bill_amount fl x) (\<lambda>amount.
     ebind (dict_get x ''paid'' (PBool False)) (\<lambda>paid.
     Inr (PDict [(''name'', name), (''amount'', PFloat amount), (''paid'', PBool (truthy paid))]))))"

definition expense_item :: "(string \<Rightarrow> real option) \<Rightarrow> pyval \<Rightarrow> pyval result" where
  "expense_item fl x =
     ebind (dict_get x ''name'' (PStr '''')) (\<lambda>name.
     ebind (get_float fl x ''spent'') (\<lambda>spent.
     Inr (PDict [(''name'', name), (''spent'', PFloat spent)])))"

definition savings_item :: "(string \<Rightarrow> real option) \<Rightarrow> pyval \<Rightarrow> pyval result" where
  "savings_item fl x =
     ebind (dict_get x ''name'' (PStr '''')) (\<lambda>name.
     ebind (get_float fl x ''saved'') (\<lambda>saved.
     Inr (PDict [(''name'', name), (''saved'', PFloat saved)])))"

text \<open>
  \<^verbatim>\<open>[body(x) for x in d.get(key, [])]\<close>: the lookup, the iteration and the bodies
  in order.
\<close>

definition items_of ::
  "(pyval \<Rightarrow> 'a result) \<Rightarrow> pyval \<Rightarrow> string \<Rightarrow> 'a list result" where
  "items_of body d key =
     ebind (dict_get d key (PList [])) (\<lambda>v. ebind (py_iter v) (map_err body))"

text \<open>
  The block under \<^verbatim>\<open># Normalize old data\<close> of \<^verbatim>\<open>load_month_data\<close>: the statements
  run in the order of the source, and the keys of \<^verbatim>\<open>out\<close> keep the order
  \<^verbatim>\<open>default_month_data()\<close> gave them.
\<close>

definition normalize :: "(string \<Rightarrow> real option) \<Rightarrow> pyval \<Rightarrow> pyval result" where
  "normalize fl d =
     ebind (get_float fl d ''rollover'') (\<lambda>rollover.
     ebind (get_float fl d ''debt'') (\<lambda>debt.
     ebind (items_of (income_item fl) d ''income_items'') (\<lambda>income.
     ebind (items_of (bill_item fl) d ''bill_items'') (\<lambda>bills.
     ebind (items_of (expense_item fl) d ''expense_items'') (\<lambda>expenses.
     ebind (items_of (savings_item fl) d ''savings_items'') (\<lambda>savings.
     Inr (PDict [
       (''rollover'', PFloat rollover),
       (''debt'', PFloat debt),
       (''income_items'', PList income),
       (''bill_items'', PList bills),
       (''expense_items'', PList expenses),
       (''savings_items'', PList savings)])))))))"

text \<open>
  \<^verbatim>\<open>load_month_data\<close> reads the directory and returns it as it found it; the pair
  makes the absence of a write a statement about the function.
\<close>

definition load_month_data ::
  "(string \<Rightarrow> real option) \<Rightarrow> string \<Rightarrow> fs \<Rightarrow> pyval result \<times> fs" where
  "load_month_data fl month_ym files =
     (case map_of files (get_data_file month_ym) of
        Some content \<Rightarrow> (ebind (json_load content) (normalize fl), files)
      | None \<Rightarrow> (Inr default_month_data, files))"

text \<open>\<^verbatim>\<open>save_month_data\<close> replaces the file of the month, or creates it.\<close>

definition save_month_data :: "string \<Rightarrow> pyval \<Rightarrow> fs \<Rightarrow> fs" where
  "save_month_data month_ym data files = AList.update (get_data_file month_ym) (Json data) files"

text \<open>
  \<^verbatim>\<open>DATA_DIR.glob("budget_*.json")\<close>: the names of the directory's entries that
  begin with \<^verbatim>\<open>budget_\<close> and end with \<^verbatim>\<open>.json\<close>; the star does not cross a
  path separator.
\<close>

definition glob_budget :: "string \<Rightarrow> bool" where
  "glob_budget name \<longleftrightarrow>
     12 \<le> length name \<and> take 7 name = ''budget_'' \<and>
     drop (length name - 5) name = ''.json'' \<and> CHR ''/'' \<notin> set name"

definition is_digit :: "char \<Rightarrow> bool" where
  "is_digit c \<longleftrightarrow> c \<in> set ''0123456789''"

text \<open>
  The pattern \<^verbatim>\<open>budget_(\d{4}-\d{2})\.json\<close> matched at the start of a string; the
  result is the group. (\<^verbatim>\<open>\d\<close> is taken as an ASCII digit.)
\<close>

definition match_here :: "string \<Rightarrow> string option" where
  "match_here s =
     (let g = take 7 (drop 7 s) in
      if take 7 s = ''budget_'' \<and> length g = 7 \<and> list_all is_digit (take 4 g) \<and>
         g ! 4 = CHR ''-'' \<and> list_all is_digit (drop 5 g) \<and> take 5 (drop 14 s) = ''.json''
      then Some g else None)"

text \<open>
  \<^verbatim>\<open>re.findall\<close> of that pattern: the groups of the matches from left to right, the
  search resuming behind each match (19 characters).
\<close>

fun re_findall :: "string \<Rightarrow> string list" where
  "re_findall [] = []"
| "re_findall (c # s) =
     (case match_here (c # s) of
        Some g \<Rightarrow> g # re_findall (drop 18 s)
      | None \<Rightarrow> re_findall s)"

text \<open>The loop of \<^verbatim>\<open>list_saved_months\<close> over the globbed paths.\<close>

fun saved_months_loop :: "string list \<Rightarrow> string list" where
  "saved_months_loop [] = []"
| "saved_months_loop (name # names) =
     (case re_findall name of
        [] \<Rightarrow> saved_months_loop names
      | m0 # _ \<Rightarrow> m0 # saved_months_loop names)"

definition list_saved_months :: "fs \<Rightarrow> string list" where
  "list_saved_months files =
     sort (remdups (saved_months_loop (filter glob_budget (map fst files))))"

subsection \<open>The year summary\<close>

text \<open>
  The generator expression \<^verbatim>\<open>sum(float(x.get(field, 0.0) or 0.0) for x in
  d.get(key, []))\<close> of \<^verbatim>\<open>aggregate_year\<close> and \<^verbatim>\<open>calculate_totals\<close>.
\<close>

definition sum_field ::
  "(string \<Rightarrow> real option) \<Rightarrow> pyval \<Rightarrow> string \<Rightarrow> string \<Rightarrow> real result" where
  "sum_field fl d key field =
     ebind (items_of (\<lambda>x. get_float fl x field) d key) (\<lambda>vs. Inr (py_sum vs))"

text \<open>A row of the data frame that \<^verbatim>\<open>aggregate_year\<close> builds.\<close>

record year_row =
  Month :: string
  Income :: real
  Expenses :: real
  Bills :: real
  Saved :: real
  Debt :: real
  Left :: real

text \<open>The body of the loop of \<^verbatim>\<open>aggregate_year\<close>, behind the load.\<close>

definition month_row :: "(string \<Rightarrow> real option) \<Rightarrow> string \<Rightarrow> pyval \<Rightarrow> year_row result" where
  "month_row fl ym d =
     ebind (sum_field fl d ''income_items'' ''amount'') (\<lambda>income.
     ebind (sum_field fl d ''expense_items'' ''spent'') (\<lambda>expenses.
     ebind (sum_field fl d ''bill_items'' ''amount'') (\<lambda>bills.
     ebind (sum_field fl d ''savings_items'' ''saved'') (\<lambda>saved.
     ebind (get_float fl d ''debt'') (\<lambda>debt.
     (let left = income - expenses - bills - saved - debt in
      Inr \<lparr>Month = ym, Income = income, Expenses = expenses, Bills = bills,
           Saved = saved, Debt = debt, Left = left\<rparr>))))))"

fun year_loop ::
  "(string \<Rightarrow> real option) \<Rightarrow> string list \<Rightarrow> fs \<Rightarrow> year_row list result \<times> fs" where
  "year_loop fl [] files = (Inr [], files)"
| "year_loop fl (ym # yms) files =
     (case load_month_data fl ym files of
        (Inl e, files') \<Rightarrow> (Inl e, files')
      | (Inr d, files') \<Rightarrow>
          (case month_row fl ym d of
             Inl e \<Rightarrow> (Inl e, files')
           | Inr row \<Rightarrow>
               (case year_loop fl yms files' of
                  (Inl e, files'') \<Rightarrow> (Inl e, files'')
                | (Inr rows, files'') \<Rightarrow> (Inr (row # rows), files''))))"

text \<open>\<^verbatim>\<open>str(n)\<close> of an \<^verbatim>\<open>int\<close>, as the f-string \<^verbatim>\<open>f"{year}-"\<close> formats it.\<close>

definition digit_char :: "nat \<Rightarrow> char" where
  "digit_char n = ''0123456789'' ! (n mod 10)"

fun str_of_nat :: "nat \<Rightarrow> string" where
  "str_of_nat n = (if n < 10 then [digit_char n] else str_of_nat (n div 10) @ [digit_char n])"

declare str_of_nat.simps [simp del]

definition str_of_int :: "int \<Rightarrow> string" where
  "str_of_int i = (if i < 0 then CHR ''-'' # str_of_nat (nat (- i)) else str_of_nat (nat i))"

text \<open>\<^verbatim>\<open>s.startswith(p)\<close>\<close>

definition startswith :: "string \<Rightarrow> string \<Rightarrow> bool" where
  "startswith s p \<longleftrightarrow> take (length p) s = p"

definition aggregate_year ::
  "(string \<Rightarrow> real option) \<Rightarrow> int \<Rightarrow> fs \<Rightarrow> year_row list result \<times> fs" where
  "aggregate_year fl year files =
     (let months = filter (\<lambda>m. startswith m (str_of_int year @ ''-'')) (list_saved_months files)
      in year_loop fl months files)"

subsection \<open>Totals of a month\<close>

definition calculate_totals ::
  "(string \<Rightarrow> real option) \<Rightarrow> pyval \<Rightarrow> (real \<times> real \<times> real \<times> real \<times> real \<times> real \<times> real) result" where
  "calculate_totals fl data =
     ebind (sum_field fl data ''income_items'' ''amount'') (\<lambda>total_income.
     ebind (sum_field fl data ''bill_items'' ''amount'') (\<lambda>total_bills.
     ebind (sum_field fl data ''expense_items'' ''spent'') (\<lambda>total_expenses.
     ebind (sum_field fl data ''savings_items'' ''saved'') (\<lambda>total_savings.
     ebind (get_float fl data ''debt'') (\<lambda>total_debt.
     ebind (get_float fl data ''rollover'') (\<lambda>rollover.
     (let left_amount =
            total_income + rollover - total_expenses - total_bills - total_savings - total_debt
      in Inr (total_income, total_bills, total_expenses, total_savings, total_debt, rollover,
              left_amount))))))))"

subsection \<open>Month records in the shape the program writes\<close>

text \<open>
  The shape of the dictionary that \<^verbatim>\<open>default_month_data\<close> declares and the
  normalisation produces, as a typed record: the theorems quantify over it. A name is
  whatever the stored item held under \<^verbatim>\<open>name\<close>; the source does not convert it.
\<close>

record month_record =
  rollover :: real
  debt :: real
  income_items :: "(pyval \<times> real) list"
  bill_items :: "(pyval \<times> real \<times> bool) list"
  expense_items :: "(pyval \<times> real) list"
  savings_items :: "(pyval \<times> real) list"

definition income_dict :: "pyval \<times> real \<Rightarrow> pyval" where
  "income_dict it = PDict [(''name'', fst it), (''amount'', PFloat (snd it))]"

definition bill_dict :: "pyval \<times> real \<times> bool \<Rightarrow> pyval" where
  "bill_dict it =
     PDict [(''name'', fst it), (''amount'', PFloat (fst (snd it))), (''paid'', PBool (snd (snd it)))]"

definition expense_dict :: "pyval \<times> real \<Rightarrow> pyval" where
  "expense_dict it = PDict [(''name'', fst it), (''spent'', PFloat (snd it))]"

definition savings_dict :: "pyval \<times> real \<Rightarrow> pyval" where
  "savings_dict it = PDict [(''name'', fst it), (''saved'', PFloat (snd it))]"

definition month_dict :: "month_record \<Rightarrow> pyval" where
  "month_dict m = PDict [
     (''rollover'', PFloat (rollover m)),
     (''debt'', PFloat (debt m)),
     (''income_items'', PList (map income_dict (income_items m))),
     (''bill_items'', PList (map bill_dict (bill_items m))),
     (''expense_items'', PList (map expense_dict (expense_items m))),
     (''savings_items'', PList (map savings_dict (savings_items m)))]"

text \<open>The default record, typed.\<close>

definition default_record :: month_record where
  "default_record = \<lparr>
     rollover = 0, debt = 0,
     income_items = [(PStr ''Paycheck'', 0)],
     bill_items = [(PStr ''Rent/Mortgage'', 0, False), (PStr ''Utilities'', 0, False),
                   (PStr ''Internet'', 0, False)],
     expense_items = [(PStr ''Groceries'', 0), (PStr ''Dining Out'', 0),
                      (PStr ''Transportation'', 0)],
     savings_items = [(PStr ''Emergency Fund'', 0), (PStr ''Retirement'', 0)]\<rparr>"

subsection \<open>The normalisation as the specification words it\<close>

text \<open>
  The specification describes the normalisation as a total map from raw records to month
  records: a numeric field that is absent, null or not a number becomes 0, a bill takes
  its amount from the legacy key \<^verbatim>\<open>actual\<close> when it has no usable \<^verbatim>\<open>amount\<close>, a missing
  flag is false, and the worst case is an empty record. The definitions below follow
  those words, not the code; the theorems compare the two. The specification does not
  say when an amount is usable: here it is usable when it is a number other than zero,
  which is the test the code makes, so a bill with the amount zero takes \<^verbatim>\<open>actual\<close>.
\<close>

fun spec_usable :: "pyval option \<Rightarrow> bool" where
  "spec_usable (Some (PInt i)) = True"
| "spec_usable (Some (PFloat r)) = True"
| "spec_usable v = False"

text \<open>A number is kept, as the float that \<^verbatim>\<open>float\<close> makes of it; anything else is 0.\<close>

fun spec_number :: "pyval option \<Rightarrow> real" where
  "spec_number (Some (PInt i)) = (case double_of_int i of Inr x \<Rightarrow> x | Inl e \<Rightarrow> 0)"
| "spec_number (Some (PFloat r)) = r"
| "spec_number v = 0"

text \<open>The value of a JSON number, before any conversion.\<close>

fun number_value :: "pyval \<Rightarrow> real" where
  "number_value (PInt i) = of_int i"
| "number_value (PFloat r) = r"
| "number_value v = 0"

text \<open>A field that holds a number other than zero: the usable amount of a bill.\<close>

fun nonzero_number :: "pyval option \<Rightarrow> bool" where
  "nonzero_number (Some (PInt i)) = (i \<noteq> 0)"
| "nonzero_number (Some (PFloat r)) = (r \<noteq> 0)"
| "nonzero_number v = False"

fun spec_name :: "pyval option \<Rightarrow> pyval" where
  "spec_name (Some v) = v"
| "spec_name None = PStr []"

fun spec_paid :: "pyval option \<Rightarrow> bool" where
  "spec_paid (Some v) = truthy v"
| "spec_paid None = False"

fun fields_of :: "pyval \<Rightarrow> string \<Rightarrow> pyval option" where
  "fields_of (PDict kvs) = map_of kvs"
| "fields_of v = (\<lambda>k. None)"

fun raw_items :: "pyval option \<Rightarrow> pyval list" where
  "raw_items (Some (PList xs)) = xs"
| "raw_items v = []"

definition spec_bill_amount :: "pyval \<Rightarrow> real" where
  "spec_bill_amount x =
     (if nonzero_number (fields_of x ''amount'') then spec_number (fields_of x ''amount'')
      else spec_number (fields_of x ''actual''))"

definition spec_income :: "pyval \<Rightarrow> pyval \<times> real" where
  "spec_income x = (spec_name (fields_of x ''name''), spec_number (fields_of x ''amount''))"

definition spec_bill :: "pyval \<Rightarrow> pyval \<times> real \<times> bool" where
  "spec_bill x =
     (spec_name (fields_of x ''name''), spec_bill_amount x, spec_paid (fields_of x ''paid''))"

definition spec_expense :: "pyval \<Rightarrow> pyval \<times> real" where
  "spec_expense x = (spec_name (fields_of x ''name''), spec_number (fields_of x ''spent''))"

definition spec_saving :: "pyval \<Rightarrow> pyval \<times> real" where
  "spec_saving x = (spec_name (fields_of x ''name''), spec_number (fields_of x ''saved''))"

definition spec_normalize :: "pyval \<Rightarrow> month_record" where
  "spec_normalize d = \<lparr>
     rollover = spec_number (fields_of d ''rollover''),
     debt = spec_number (fields_of d ''debt''),
     income_items = map spec_income (raw_items (fields_of d ''income_items'')),
     bill_items = map spec_bill (raw_items (fields_of d ''bill_items'')),
     expense_items = map spec_expense (raw_items (fields_of d ''expense_items'')),
     savings_items = map spec_saving (raw_items (fields_of d ''savings_items''))\<rparr>"

text \<open>
  The raw records of the stored layout: an object whose numeric fields are each absent,
  a number, or a value that Python takes as false (null, \<^verbatim>\<open>false\<close>, an empty string,
  list or object), and whose collections are each absent, a list of such objects, or an
  empty string or object. An integer counts when it is within the range of a double, so
  that \<^verbatim>\<open>float\<close> returns.
\<close>

fun field_ok :: "pyval option \<Rightarrow> bool" where
  "field_ok None = True"
| "field_ok (Some (PFloat r)) = True"
| "field_ok (Some (PInt i)) = (case double_of_int i of Inr x \<Rightarrow> True | Inl e \<Rightarrow> False)"
| "field_ok (Some v) = (\<not> truthy v)"

text \<open>A field that is absent or holds a value that Python takes as false.\<close>

fun falsy_or_missing :: "pyval option \<Rightarrow> bool" where
  "falsy_or_missing None = True"
| "falsy_or_missing (Some v) = (\<not> truthy v)"

fun is_dict :: "pyval \<Rightarrow> bool" where
  "is_dict (PDict kvs) = True"
| "is_dict v = False"

definition item_ok :: "string \<Rightarrow> pyval \<Rightarrow> bool" where
  "item_ok field x \<longleftrightarrow> is_dict x \<and> field_ok (fields_of x field)"

definition bill_ok :: "pyval \<Rightarrow> bool" where
  "bill_ok x \<longleftrightarrow>
     is_dict x \<and> field_ok (fields_of x ''amount'') \<and> field_ok (fields_of x ''actual'')"

fun collection_ok :: "(pyval \<Rightarrow> bool) \<Rightarrow> pyval option \<Rightarrow> bool" where
  "collection_ok ok None = True"
| "collection_ok ok (Some (PList xs)) = list_all ok xs"
| "collection_ok ok (Some (PStr s)) = (s = [])"
| "collection_ok ok (Some (PDict kvs)) = (kvs = [])"
| "collection_ok ok (Some v) = False"

definition raw_ok :: "pyval \<Rightarrow> bool" where
  "raw_ok d \<longleftrightarrow>
     is_dict d \<and> field_ok (fields_of d ''rollover'') \<and>
     field_ok (fields_of d ''debt'') \<and>
     collection_ok (item_ok ''amount'') (fields_of d ''income_items'') \<and>
     collection_ok bill_ok (fields_of d ''bill_items'') \<and>
     collection_ok (item_ok ''spent'') (fields_of d ''expense_items'') \<and>
     collection_ok (item_ok ''saved'') (fields_of d ''savings_items'')"

text \<open>
  A month key as \<^verbatim>\<open>list_saved_months\<close> extracts it, and its year component, the text
  before the dash (\<^verbatim>\<open>m.split("-")[0]\<close> in the source).
\<close>

definition month_key :: "string \<Rightarrow> bool" where
  "month_key k \<longleftrightarrow>
     length k = 7 \<and> list_all is_digit (take 4 k) \<and> k ! 4 = CHR ''-'' \<and>
     list_all is_digit (drop 5 k)"

definition year_component :: "string \<Rightarrow> string" where
  "year_component k = takeWhile (\<lambda>c. c \<noteq> CHR ''-'') k"




text \<open>
  The row of the year summary as the specification gives it for a month record: the
  sums of the four categories, the debt, and left = income - expenses - bills - saved -
  debt.
\<close>

definition spec_row :: "string \<Rightarrow> month_record \<Rightarrow> year_row" where
  "spec_row ym m = \<lparr>
     Month = ym,
     Income = sum_list (map snd (income_items m)),
     Expenses = sum_list (map snd (expense_items m)),
     Bills = sum_list (map (\<lambda>it. fst (snd it)) (bill_items m)),
     Saved = sum_list (map snd (savings_items m)),
     Debt = debt m,
     Left = sum_list (map snd (income_items m)) - sum_list (map snd (expense_items m))
       - sum_list (map (\<lambda>it. fst (snd it)) (bill_items m))
       - sum_list (map snd (savings_items m)) - debt m\<rparr>"

section \<open>Properties\<close>

subsection \<open>Auxiliary facts\<close>


lemma ebind_simps [simp]: "ebind (Inr v) f = f v" "ebind (Inl e) f = Inl e"
  by (simp_all add: ebind_def)

lemma ebind_eq_Inr: "ebind m f = Inr y \<longleftrightarrow> (\<exists>v. m = Inr v \<and> f v = Inr y)"
  by (cases m) simp_all

text \<open>The conversion of an integer: exact below \<open>2 ^ 53\<close>, an exception from \<open>2 ^ 1024\<close> on.\<close>


lemma bit_len_le: "n < 2 ^ k \<Longrightarrow> bit_len n \<le> k"
proof (induction k arbitrary: n)
  case 0
  then show ?case by (simp add: bit_len.simps)
next
  case (Suc k)
  show ?case
  proof (cases "n = 0")
    case True
    then show ?thesis by (simp add: bit_len.simps)
  next
    case False
    from Suc.prems have "n div 2 < 2 ^ k" by simp
    then have "bit_len (n div 2) \<le> k" by (rule Suc.IH)
    with False show ?thesis by (subst bit_len.simps) simp
  qed
qed

lemma double_of_int_exact:
  assumes "\<bar>i\<bar> < 2 ^ 53"
  shows "double_of_int i = Inr (of_int i)"
proof -
  define n where "n = nat \<bar>i\<bar>"
  from assms have n: "n < 2 ^ 53"
    by (simp add: n_def nat_less_iff)
  then have sh: "bit_len n - 53 = 0" using bit_len_le [of n 53] by simp
  have "n < 2 ^ 1024"
    using n by (rule less_trans) simp
  then have small: "\<not> (2 :: nat) ^ 1024 \<le> n" by (simp only: not_le)
  have "double_of_int i = Inr (if i < 0 then - real n else real n)"
    unfolding double_of_int_def Let_def n_def [symmetric] sh
    using small by (simp del: power_numeral)
  also have "(if i < 0 then - real n else real n) = of_int i"
    by (simp add: n_def)
  finally show ?thesis .
qed


lemma bit_len_bounds: "n \<noteq> 0 \<Longrightarrow> 2 ^ (bit_len n - 1) \<le> n \<and> n < 2 ^ bit_len n"
proof (induction n rule: bit_len.induct)
  case (1 n)
  show ?case
  proof (cases "n div 2 = 0")
    case True
    with 1 have "n = 1" by (simp add: div_eq_0_iff) 
    then show ?thesis by (simp add: bit_len.simps)
  next
    case False
    with "1.IH" "1.prems" have ih: "2 ^ (bit_len (n div 2) - 1) \<le> n div 2"
      "n div 2 < 2 ^ bit_len (n div 2)" by simp_all
    have e: "bit_len n = Suc (bit_len (n div 2))" using "1.prems" by (subst bit_len.simps) simp
    have pos: "bit_len (n div 2) \<noteq> 0" using False by (subst bit_len.simps) simp
    from ih(1) have "2 * 2 ^ (bit_len (n div 2) - 1) \<le> n" by linarith
    then have "2 ^ bit_len (n div 2) \<le> n" using pos
      by (cases "bit_len (n div 2)") simp_all
    moreover from ih(2) have "n < 2 * 2 ^ bit_len (n div 2)" by linarith
    ultimately show ?thesis by (simp add: e)
  qed
qed

lemma bit_len_eq:
  assumes "2 ^ k \<le> n" and "n < 2 ^ Suc k"
  shows "bit_len n = Suc k"
proof -
  from assms(1) have nz: "n \<noteq> 0" by (cases "n = 0") simp_all
  from bit_len_bounds [OF nz] have lo: "2 ^ (bit_len n - 1) \<le> n" and hi: "n < 2 ^ bit_len n"
    by simp_all
  from assms(1) hi have "(2 :: nat) ^ k < 2 ^ bit_len n" by (rule le_less_trans)
  then have 1: "k < bit_len n" by (rule power_less_imp_less_exp [rotated]) simp
  from lo assms(2) have "(2 :: nat) ^ (bit_len n - 1) < 2 ^ Suc k" by (rule le_less_trans)
  then have "bit_len n - 1 < Suc k" by (rule power_less_imp_less_exp [rotated]) simp
  with 1 show ?thesis by simp
qed

lemma double_of_int_overflow:
  assumes "2 ^ 1024 \<le> \<bar>i\<bar>"
  shows "double_of_int i = Inl OverflowError"
proof -
  define n where "n = nat \<bar>i\<bar>"
  define sh where "sh = bit_len n - 53"
  define q where "q = n div 2 ^ sh"
  from assms have big: "2 ^ 1024 \<le> n"
    by (simp add: n_def le_nat_iff)
  then have nz: "n \<noteq> 0" by (cases "n = 0") simp_all
  from bit_len_bounds [OF nz] have lo: "2 ^ (bit_len n - 1) \<le> n" and hi: "n < 2 ^ bit_len n"
    by simp_all
  from big hi have "(2 :: nat) ^ 1024 < 2 ^ bit_len n" by (rule le_less_trans)
  then have e: "1024 < bit_len n" by (rule power_less_imp_less_exp [rotated]) simp
  have "2 ^ 1024 \<le> q * 2 ^ sh"
  proof (rule ccontr)
    assume "\<not> 2 ^ 1024 \<le> q * 2 ^ sh"
    then have lt: "q * 2 ^ sh < 2 ^ 1024" by (simp only: not_le)
    have "(2 :: nat) ^ (bit_len n - 1) = 2 ^ 52 * 2 ^ sh"
      using e by (simp add: sh_def flip: power_add del: power_numeral)
    with lo have "2 ^ 52 * 2 ^ sh \<le> n" by simp
    then have "2 ^ 52 \<le> q" unfolding q_def
      by (metis div_le_mono nonzero_mult_div_cancel_right power_not_zero zero_neq_numeral)
    then have "2 ^ 52 * 2 ^ sh \<le> q * (2 :: nat) ^ sh" by (rule mult_le_mono1)
    then have "(2 :: nat) ^ (bit_len n - 1) \<le> q * 2 ^ sh"
      using \<open>(2 :: nat) ^ (bit_len n - 1) = 2 ^ 52 * 2 ^ sh\<close> by simp
    moreover have "(2 :: nat) ^ 1024 \<le> 2 ^ (bit_len n - 1)"
      using e by (intro power_increasing) simp_all
    ultimately show False using lt by linarith
  qed
  then have "2 ^ 1024 \<le> (if 2 ^ sh < 2 * (n mod 2 ^ sh) \<or> (2 * (n mod 2 ^ sh) = 2 ^ sh \<and> odd q)
      then q + 1 else q) * 2 ^ sh"
    by (auto simp del: power_numeral intro: le_trans)
  then show ?thesis
    unfolding double_of_int_def Let_def n_def [symmetric] sh_def [symmetric] q_def [symmetric]
    by (simp del: power_numeral)
qed

lemma double_of_int_round_example:
  "double_of_int (- 9007199254740993) = Inr (- 9007199254740992)"
proof -
  have b: "bit_len 9007199254740993 = Suc 53"
    by (rule bit_len_eq) simp_all
  show ?thesis
    by (simp add: double_of_int_def Let_def b)
qed

lemma double_of_int_overflow_example: "double_of_int (- (10 ^ 400)) = Inl OverflowError"
  by (rule double_of_int_overflow) simp

lemma map_err_map:
  assumes "\<And>x. x \<in> set xs \<Longrightarrow> f (g x) = Inr (h x)"
  shows "map_err f (map g xs) = Inr (map h xs)"
  using assms by (induction xs) simp_all

lemma double_of_int_zero: "double_of_int 0 = Inr 0"
  using double_of_int_exact [of 0] by simp

lemma coerce_spec:
  "field_ok (Some v) \<Longrightarrow> py_float fl (py_or v (PFloat 0)) = Inr (spec_number (Some v))"
  by (cases v) (auto simp: py_or_def double_of_int_zero split: sum.splits)

lemma truthy_spec: "field_ok (Some v) \<Longrightarrow> truthy v \<longleftrightarrow> nonzero_number (Some v)"
  by (cases v) auto

lemma get_float_spec:
  "field_ok (map_of kvs k) \<Longrightarrow> get_float fl (PDict kvs) k = Inr (spec_number (map_of kvs k))"
proof (cases "map_of kvs k")
  case None
  then show ?thesis by (simp add: get_float_def py_or_def)
next
  case (Some v)
  assume "field_ok (map_of kvs k)"
  with Some show ?thesis by (simp add: get_float_def coerce_spec)
qed

lemma income_item_spec: "item_ok ''amount'' x \<Longrightarrow> income_item fl x = Inr (income_dict (spec_income x))"
  by (cases x) (auto simp: item_ok_def income_item_def income_dict_def spec_income_def get_float_spec split: option.splits)

lemma expense_item_spec: "item_ok ''spent'' x \<Longrightarrow> expense_item fl x = Inr (expense_dict (spec_expense x))"
  by (cases x) (auto simp: item_ok_def expense_item_def expense_dict_def spec_expense_def get_float_spec split: option.splits)

lemma savings_item_spec: "item_ok ''saved'' x \<Longrightarrow> savings_item fl x = Inr (savings_dict (spec_saving x))"
  by (cases x) (auto simp: item_ok_def savings_item_def savings_dict_def spec_saving_def get_float_spec split: option.splits)

lemma bill_amount_spec:
  assumes "bill_ok (PDict kvs)"
  shows "bill_amount fl (PDict kvs) = Inr (spec_bill_amount (PDict kvs))"
proof -
  from assms have am: "field_ok (map_of kvs ''amount'')" and ac: "field_ok (map_of kvs ''actual'')"
    by (simp_all add: bill_ok_def)
  have actual: "py_float fl (py_or (case map_of kvs ''actual'' of None \<Rightarrow> PFloat 0 | Some b \<Rightarrow> b)
      (PFloat 0)) = Inr (spec_number (map_of kvs ''actual''))"
  proof (cases "map_of kvs ''actual''")
    case None
    then show ?thesis by (simp add: py_or_def)
  next
    case (Some b)
    with ac show ?thesis by (simp add: coerce_spec)
  qed
  show ?thesis
  proof (cases "map_of kvs ''amount''")
    case None
    then show ?thesis by (simp add: bill_amount_def spec_bill_amount_def actual)
  next
    case (Some a)
    with am have ok: "field_ok (Some a)" by simp
    show ?thesis
    proof (cases "truthy a")
      case True
      with coerce_spec [OF ok, of fl] have "py_float fl a = Inr (spec_number (Some a))"
        by (simp add: py_or_def)
      moreover from True truthy_spec [OF ok] have "nonzero_number (Some a)" by simp
      ultimately show ?thesis using Some True
        by (simp add: bill_amount_def spec_bill_amount_def)
    next
      case False
      with truthy_spec [OF ok] have "\<not> nonzero_number (Some a)" by simp
      with Some False show ?thesis by (simp add: bill_amount_def spec_bill_amount_def actual)
    qed
  qed
qed

lemma bill_item_spec: "bill_ok x \<Longrightarrow> bill_item fl x = Inr (bill_dict (spec_bill x))"
proof (cases x)
  case (PDict kvs)
  assume "bill_ok x"
  then have "bill_amount fl x = Inr (spec_bill_amount x)" using PDict bill_amount_spec by simp
  then show ?thesis using PDict
    by (auto simp: bill_item_def bill_dict_def spec_bill_def split: option.splits)
qed (simp_all add: bill_ok_def)

lemma map_err_spec:
  assumes "list_all ok xs" and "\<And>x. ok x \<Longrightarrow> body x = Inr (enc (sp x))"
  shows "map_err body xs = Inr (map enc (map sp xs))"
  using assms by (induction xs) simp_all

lemma items_of_spec:
  assumes "collection_ok ok (map_of kvs key)" and "\<And>x. ok x \<Longrightarrow> body x = Inr (enc (sp x))"
  shows "items_of body (PDict kvs) key = Inr (map enc (map sp (raw_items (map_of kvs key))))"
proof (cases "map_of kvs key")
  case None
  then show ?thesis by (simp add: items_of_def)
next
  case (Some v)
  with assms show ?thesis
    by (cases v) (simp_all add: items_of_def map_err_spec [where ok = ok])
qed

lemma items_of_income:
  "collection_ok (item_ok ''amount'') (map_of kvs ''income_items'') \<Longrightarrow>
   items_of (income_item fl) (PDict kvs) ''income_items'' =
     Inr (map income_dict (map spec_income (raw_items (map_of kvs ''income_items''))))"
  by (rule items_of_spec [where ok = "item_ok ''amount''"]) (simp_all add: income_item_spec)

lemma items_of_bills:
  "collection_ok bill_ok (map_of kvs ''bill_items'') \<Longrightarrow>
   items_of (bill_item fl) (PDict kvs) ''bill_items'' =
     Inr (map bill_dict (map spec_bill (raw_items (map_of kvs ''bill_items''))))"
  by (rule items_of_spec [where ok = bill_ok]) (simp_all add: bill_item_spec)

lemma items_of_expenses:
  "collection_ok (item_ok ''spent'') (map_of kvs ''expense_items'') \<Longrightarrow>
   items_of (expense_item fl) (PDict kvs) ''expense_items'' =
     Inr (map expense_dict (map spec_expense (raw_items (map_of kvs ''expense_items''))))"
  by (rule items_of_spec [where ok = "item_ok ''spent''"]) (simp_all add: expense_item_spec)

lemma items_of_savings:
  "collection_ok (item_ok ''saved'') (map_of kvs ''savings_items'') \<Longrightarrow>
   items_of (savings_item fl) (PDict kvs) ''savings_items'' =
     Inr (map savings_dict (map spec_saving (raw_items (map_of kvs ''savings_items''))))"
  by (rule items_of_spec [where ok = "item_ok ''saved''"]) (simp_all add: savings_item_spec)

lemma normalize_spec:
  assumes "raw_ok d"
  shows "normalize fl d = Inr (month_dict (spec_normalize d))"
proof (cases d)
  case (PDict kvs)
  with assms show ?thesis
    by (simp add: raw_ok_def normalize_def get_float_spec month_dict_def spec_normalize_def
        items_of_income items_of_bills items_of_expenses items_of_savings)
qed (use assms in \<open>simp_all add: raw_ok_def\<close>)


lemma spec_bill_bill_dict: "spec_bill (bill_dict it) = it"
  by (cases it) (auto simp: spec_bill_def bill_dict_def spec_bill_amount_def)

lemma spec_normalize_month_dict: "spec_normalize (month_dict m) = m"
  by (simp add: spec_normalize_def month_dict_def comp_def spec_income_def income_dict_def
      spec_bill_bill_dict spec_expense_def expense_dict_def spec_saving_def savings_dict_def)

lemma raw_ok_month_dict: "raw_ok (month_dict m)"
  by (simp add: raw_ok_def month_dict_def list_all_iff item_ok_def bill_ok_def income_dict_def
      bill_dict_def expense_dict_def savings_dict_def)

lemma normalize_month_dict: "normalize fl (month_dict m) = Inr (month_dict m)"
  using normalize_spec [OF raw_ok_month_dict, of fl m] by (simp add: spec_normalize_month_dict)

lemma map_err_shape:
  assumes "map_err body xs = Inr ys" and "\<And>x y. body x = Inr y \<Longrightarrow> \<exists>it. y = enc it"
  shows "\<exists>its. ys = map enc its"
  using assms
proof (induction xs arbitrary: ys)
  case Nil
  then show ?case by simp
next
  case (Cons x xs)
  from Cons.prems(1) obtain y zs where y: "body x = Inr y" and zs: "map_err body xs = Inr zs"
    and ys: "ys = y # zs"
    by (auto split: sum.splits)
  from Cons.prems(2) [OF y] obtain it where "y = enc it" ..
  moreover have "\<exists>its. zs = map enc its" using zs Cons.prems(2) by (rule Cons.IH)
  then obtain its where "zs = map enc its" ..
  ultimately have "ys = map enc (it # its)" using ys by simp
  then show ?case by blast
qed

lemma items_of_shape:
  assumes "items_of body d key = Inr ys" and "\<And>x y. body x = Inr y \<Longrightarrow> \<exists>it. y = enc it"
  shows "\<exists>its. ys = map enc its"
proof -
  from assms(1) obtain xs where "map_err body xs = Inr ys"
    by (auto simp: items_of_def ebind_eq_Inr)
  then show ?thesis using assms(2) by (rule map_err_shape)
qed

lemma income_item_shape: "income_item fl x = Inr y \<Longrightarrow> \<exists>it. y = income_dict it"
  by (auto simp: income_item_def income_dict_def ebind_eq_Inr)

lemma bill_item_shape: "bill_item fl x = Inr y \<Longrightarrow> \<exists>it. y = bill_dict it"
  by (auto simp: bill_item_def bill_dict_def ebind_eq_Inr)

lemma expense_item_shape: "expense_item fl x = Inr y \<Longrightarrow> \<exists>it. y = expense_dict it"
  by (auto simp: expense_item_def expense_dict_def ebind_eq_Inr)

lemma savings_item_shape: "savings_item fl x = Inr y \<Longrightarrow> \<exists>it. y = savings_dict it"
  by (auto simp: savings_item_def savings_dict_def ebind_eq_Inr)

lemma normalize_shape:
  assumes "normalize fl d = Inr out"
  shows "\<exists>m. out = month_dict m"
proof -
  from assms obtain r dt inc bl ex sv where
    inc: "items_of (income_item fl) d ''income_items'' = Inr inc" and
    bl: "items_of (bill_item fl) d ''bill_items'' = Inr bl" and
    ex: "items_of (expense_item fl) d ''expense_items'' = Inr ex" and
    sv: "items_of (savings_item fl) d ''savings_items'' = Inr sv" and
    out: "out = PDict [(''rollover'', PFloat r), (''debt'', PFloat dt),
       (''income_items'', PList inc), (''bill_items'', PList bl),
       (''expense_items'', PList ex), (''savings_items'', PList sv)]"
    unfolding normalize_def ebind_eq_Inr by blast
  have "\<exists>its. inc = map income_dict its"
    using inc by (rule items_of_shape) (rule income_item_shape)
  then obtain ii where "inc = map income_dict ii" ..
  moreover have "\<exists>its. bl = map bill_dict its"
    using bl by (rule items_of_shape) (rule bill_item_shape)
  then obtain bs where "bl = map bill_dict bs" ..
  moreover have "\<exists>its. ex = map expense_dict its"
    using ex by (rule items_of_shape) (rule expense_item_shape)
  then obtain es where "ex = map expense_dict es" ..
  moreover have "\<exists>its. sv = map savings_dict its"
    using sv by (rule items_of_shape) (rule savings_item_shape)
  then obtain ss where "sv = map savings_dict ss" ..
  ultimately have "out = month_dict \<lparr>rollover = r, debt = dt, income_items = ii, bill_items = bs,
      expense_items = es, savings_items = ss\<rparr>"
    using out by (simp add: month_dict_def)
  then show ?thesis by blast
qed

lemma default_month_data_typed: "default_month_data = month_dict default_record"
  by (simp add: month_dict_def default_record_def default_month_data_def income_dict_def
      bill_dict_def expense_dict_def savings_dict_def)

lemma load_month_data_shape:
  assumes "fst (load_month_data fl k files) = Inr d"
  shows "\<exists>m. d = month_dict m"
proof (cases "map_of files (get_data_file k)")
  case None
  with assms have "d = default_month_data" by (simp add: load_month_data_def)
  then show ?thesis using default_month_data_typed by blast
next
  case (Some c)
  with assms obtain raw where "normalize fl raw = Inr d"
    by (auto simp: load_month_data_def ebind_eq_Inr)
  then show ?thesis by (rule normalize_shape)
qed

lemma load_month_data_files: "snd (load_month_data fl k files) = files"
  by (simp add: load_month_data_def split: option.splits)

lemma map_of_save: "map_of (save_month_data k d files) (get_data_file k) = Some (Json d)"
  by (simp add: save_month_data_def update_conv')


lemma py_sum_sum_list: "py_sum xs = sum_list xs"
proof -
  have "foldl (+) a xs = a + sum_list xs" for a :: real
    by (induction xs arbitrary: a) simp_all
  then show ?thesis by (simp add: py_sum_def)
qed

lemma get_float_kept: "map_of kvs k = Some (PFloat r) \<Longrightarrow> get_float fl (PDict kvs) k = Inr r"
  by (simp add: get_float_def py_or_def)

lemma income_amounts:
  "map_err (\<lambda>x. get_float fl x ''amount'') (map income_dict its) = Inr (map snd its)"
  by (rule map_err_map) (simp add: income_dict_def get_float_kept)

lemma bill_amounts:
  "map_err (\<lambda>x. get_float fl x ''amount'') (map bill_dict its) =
     Inr (map (\<lambda>it. fst (snd it)) its)"
  by (rule map_err_map) (simp add: bill_dict_def get_float_kept)

lemma expense_amounts:
  "map_err (\<lambda>x. get_float fl x ''spent'') (map expense_dict its) = Inr (map snd its)"
  by (rule map_err_map) (simp add: expense_dict_def get_float_kept)

lemma savings_amounts:
  "map_err (\<lambda>x. get_float fl x ''saved'') (map savings_dict its) = Inr (map snd its)"
  by (rule map_err_map) (simp add: savings_dict_def get_float_kept)

lemma sum_field_month_dict:
  "sum_field fl (month_dict m) ''income_items'' ''amount'' =
     Inr (sum_list (map snd (income_items m)))"
  "sum_field fl (month_dict m) ''bill_items'' ''amount'' =
     Inr (sum_list (map (\<lambda>it. fst (snd it)) (bill_items m)))"
  "sum_field fl (month_dict m) ''expense_items'' ''spent'' =
     Inr (sum_list (map snd (expense_items m)))"
  "sum_field fl (month_dict m) ''savings_items'' ''saved'' =
     Inr (sum_list (map snd (savings_items m)))"
  by (simp_all add: sum_field_def items_of_def month_dict_def py_sum_sum_list
        income_amounts bill_amounts expense_amounts savings_amounts)

lemma get_float_month_dict:
  "get_float fl (month_dict m) ''debt'' = Inr (debt m)"
  "get_float fl (month_dict m) ''rollover'' = Inr (rollover m)"
  by (simp_all add: month_dict_def get_float_kept)

lemmas item_dict_defs = month_dict_def income_dict_def bill_dict_def expense_dict_def
  savings_dict_def

subsection \<open>Totals of a month (C1)\<close>

text \<open>
  Claim C1. For every month record, \<^verbatim>\<open>calculate_totals\<close> returns the sums of the
  \<^verbatim>\<open>amount\<close>, \<^verbatim>\<open>spent\<close> and \<^verbatim>\<open>saved\<close> fields of the record's item lists, each item
  counted once, the record's own \<^verbatim>\<open>debt\<close> and \<^verbatim>\<open>rollover\<close>, and
  left = income + rollover - expenses - bills - savings - debt. Every record that
  \<^verbatim>\<open>load_month_data\<close> returns is such a month record.
\<close>

theorem calculate_totals_left:
  "calculate_totals fl (month_dict m) =
     Inr (sum_list (map snd (income_items m)),
          sum_list (map (\<lambda>it. fst (snd it)) (bill_items m)),
          sum_list (map snd (expense_items m)),
          sum_list (map snd (savings_items m)),
          debt m, rollover m,
          sum_list (map snd (income_items m)) + rollover m
            - sum_list (map snd (expense_items m))
            - sum_list (map (\<lambda>it. fst (snd it)) (bill_items m))
            - sum_list (map snd (savings_items m)) - debt m)
   \<and> (fst (load_month_data fl k files) = Inr d \<longrightarrow> (\<exists>m'. d = month_dict m'))"
  by (simp add: calculate_totals_def sum_field_month_dict get_float_month_dict
      load_month_data_shape)

text \<open>The example of the specification: the totals are 3000, 1200, 400, 200, 100, 50 and 1150.\<close>

theorem calculate_totals_left_witness:
  "calculate_totals (\<lambda>s. None)
     (PDict [(''rollover'', PFloat 50), (''debt'', PFloat 100),
        (''income_items'', PList [PDict [(''name'', PStr ''Paycheck''), (''amount'', PFloat 3000)]]),
        (''bill_items'', PList [PDict [(''name'', PStr ''Rent''), (''amount'', PFloat 1200),
            (''paid'', PBool False)]]),
        (''expense_items'', PList [PDict [(''name'', PStr ''Groceries''), (''spent'', PFloat 400)]]),
        (''savings_items'', PList [PDict [(''name'', PStr ''Emergency''), (''saved'', PFloat 200)]])])
   = Inr (3000, 1200, 400, 200, 100, 50, 1150)
   \<and> fst (load_month_data (\<lambda>s. None) ''2025-03'' []) = Inr default_month_data
   \<and> (\<exists>m'. default_month_data = month_dict m')"
  using calculate_totals_left [of "\<lambda>s. None"
     "\<lparr>rollover = 50, debt = 100, income_items = [(PStr ''Paycheck'', 3000)],
       bill_items = [(PStr ''Rent'', 1200, False)], expense_items = [(PStr ''Groceries'', 400)],
       savings_items = [(PStr ''Emergency'', 200)]\<rparr>" "''2025-03''" "[]" default_month_data]
  by (simp add: item_dict_defs load_month_data_def)

subsection \<open>Loading a month that was never saved (C3)\<close>

text \<open>
  Claim C3. For every month key with no stored file, \<^verbatim>\<open>load_month_data\<close> returns
  exactly the default record: rollover 0, debt 0, the one income item "Paycheck", three
  bills, three expense categories, two savings categories, and every amount 0.
\<close>

theorem load_absent_is_default:
  assumes "map_of files (get_data_file k) = None"
  shows "fst (load_month_data fl k files) = Inr default_month_data
    \<and> default_month_data = month_dict default_record
    \<and> rollover default_record = 0 \<and> debt default_record = 0
    \<and> map fst (income_items default_record) = [PStr ''Paycheck'']
    \<and> length (bill_items default_record) = 3
    \<and> length (expense_items default_record) = 3
    \<and> length (savings_items default_record) = 2
    \<and> list_all (\<lambda>it. snd it = 0) (income_items default_record)
    \<and> list_all (\<lambda>it. fst (snd it) = 0 \<and> snd (snd it) = False) (bill_items default_record)
    \<and> list_all (\<lambda>it. snd it = 0) (expense_items default_record)
    \<and> list_all (\<lambda>it. snd it = 0) (savings_items default_record)"
  using assms by (simp add: load_month_data_def default_month_data_typed) (simp add: default_record_def)

theorem load_absent_is_default_witness:
  "map_of [(''budget_2025-02.json'', Unparsable)] (get_data_file ''2025-03'') = None
   \<and> fst (load_month_data (\<lambda>s. None) ''2025-03'' [(''budget_2025-02.json'', Unparsable)])
       = Inr default_month_data"
  using load_absent_is_default [of "[(''budget_2025-02.json'', Unparsable)]" "''2025-03''" "\<lambda>s. None"]
  by (simp add: get_data_file_def)

subsection \<open>Saving and loading again (C7)\<close>

text \<open>
  Claim C7. For every month key and every raw record whose normalisation returns, saving
  the normalised record under the key and loading the key again yields that normalised
  record, field by field: the normalisation leaves a normalised record as it is.
\<close>

theorem save_then_load_roundtrip:
  assumes "normalize fl r = Inr n"
  shows "fst (load_month_data fl k (save_month_data k n files)) = Inr n"
proof -
  from assms obtain m where "n = month_dict m" using normalize_shape by blast
  then show ?thesis
    by (simp add: load_month_data_def map_of_save normalize_month_dict)
qed

text \<open>A legacy record, with a bill under \<^verbatim>\<open>actual\<close> and no savings list, saved over an old file.\<close>

theorem save_then_load_roundtrip_witness:
  "normalize (\<lambda>s. None)
     (PDict [(''rollover'', PInt 50),
        (''income_items'', PList [PDict [(''name'', PStr ''Paycheck''), (''amount'', PInt 3000)]]),
        (''bill_items'', PList [PDict [(''name'', PStr ''Rent''), (''actual'', PFloat 1200)]]),
        (''expense_items'', PList [PDict [(''name'', PStr ''Groceries''), (''spent'', PNone)]])])
   = Inr (month_dict \<lparr>rollover = 50, debt = 0, income_items = [(PStr ''Paycheck'', 3000)],
       bill_items = [(PStr ''Rent'', 1200, False)], expense_items = [(PStr ''Groceries'', 0)],
       savings_items = []\<rparr>)
   \<and> fst (load_month_data (\<lambda>s. None) ''2025-03''
       (save_month_data ''2025-03''
          (month_dict \<lparr>rollover = 50, debt = 0, income_items = [(PStr ''Paycheck'', 3000)],
             bill_items = [(PStr ''Rent'', 1200, False)],
             expense_items = [(PStr ''Groceries'', 0)], savings_items = []\<rparr>)
          [(''budget_2025-03.json'', Unparsable)]))
     = Inr (month_dict \<lparr>rollover = 50, debt = 0, income_items = [(PStr ''Paycheck'', 3000)],
       bill_items = [(PStr ''Rent'', 1200, False)], expense_items = [(PStr ''Groceries'', 0)],
       savings_items = []\<rparr>)"
proof -
  have n: "normalize (\<lambda>s. None)
     (PDict [(''rollover'', PInt 50),
        (''income_items'', PList [PDict [(''name'', PStr ''Paycheck''), (''amount'', PInt 3000)]]),
        (''bill_items'', PList [PDict [(''name'', PStr ''Rent''), (''actual'', PFloat 1200)]]),
        (''expense_items'', PList [PDict [(''name'', PStr ''Groceries''), (''spent'', PNone)]])])
   = Inr (month_dict \<lparr>rollover = 50, debt = 0, income_items = [(PStr ''Paycheck'', 3000)],
       bill_items = [(PStr ''Rent'', 1200, False)], expense_items = [(PStr ''Groceries'', 0)],
       savings_items = []\<rparr>)"
    by (simp add: normalize_def items_of_def get_float_def py_or_def income_item_def
        bill_item_def bill_amount_def expense_item_def item_dict_defs double_of_int_exact)
  from save_then_load_roundtrip [OF n, of "''2025-03''" "[(''budget_2025-03.json'', Unparsable)]"] n
  show ?thesis by simp
qed

subsection \<open>A stored file that is not JSON (C8)\<close>

text \<open>
  Claim C8. For every month key whose file exists and cannot be parsed, \<^verbatim>\<open>load_month_data\<close>
  fails with the parser's exception; it does not return the default record in place of
  the unreadable data, and it leaves the file as it is.
\<close>

theorem load_unparsable_raises:
  assumes "map_of files (get_data_file k) = Some Unparsable"
  shows "load_month_data fl k files = (Inl JSONDecodeError, files)
    \<and> fst (load_month_data fl k files) \<noteq> Inr default_month_data"
  using assms by (simp add: load_month_data_def)

theorem load_unparsable_raises_witness:
  "map_of [(''budget_2025-03.json'', Unparsable)] (get_data_file ''2025-03'') = Some Unparsable
   \<and> load_month_data (\<lambda>s. None) ''2025-03'' [(''budget_2025-03.json'', Unparsable)]
       = (Inl JSONDecodeError, [(''budget_2025-03.json'', Unparsable)])"
  using load_unparsable_raises [of "[(''budget_2025-03.json'', Unparsable)]" "''2025-03''" "\<lambda>s. None"]
  by (simp add: get_data_file_def)

subsection \<open>Loading writes nothing (C9)\<close>

text \<open>
  Claim C9. For every month key with no stored file, \<^verbatim>\<open>load_month_data\<close> returns the
  default record and leaves the directory as it found it: no file is created or changed,
  so \<^verbatim>\<open>list_saved_months\<close> gives the same keys after the load as before.
\<close>

theorem load_absent_is_pure_read:
  assumes "map_of files (get_data_file k) = None"
  shows "load_month_data fl k files = (Inr default_month_data, files)
    \<and> list_saved_months (snd (load_month_data fl k files)) = list_saved_months files"
  using assms by (simp add: load_month_data_def)

theorem load_absent_is_pure_read_witness:
  "map_of [(''budget_2025-02.json'', Json default_month_data)] (get_data_file ''2025-03'') = None
   \<and> load_month_data (\<lambda>s. None) ''2025-03'' [(''budget_2025-02.json'', Json default_month_data)]
       = (Inr default_month_data, [(''budget_2025-02.json'', Json default_month_data)])
   \<and> list_saved_months
        (snd (load_month_data (\<lambda>s. None) ''2025-03''
           [(''budget_2025-02.json'', Json default_month_data)])) = [''2025-02'']"
proof -
  have "list_saved_months [(''budget_2025-02.json'', Json default_month_data)] = [''2025-02'']"
    by code_simp
  with load_absent_is_pure_read [of "[(''budget_2025-02.json'', Json default_month_data)]"
      "''2025-03''" "\<lambda>s. None"]
  show ?thesis by (simp add: get_data_file_def)
qed


subsection \<open>Normalisation of a raw record (C2)\<close>




subsection \<open>The legacy key of a bill (C4)\<close>

text \<open>
  Claim C4, as stated: a bill takes its amount from \<^verbatim>\<open>actual\<close> exactly when it has no
  usable \<^verbatim>\<open>amount\<close>, and a usable amount is used. It fails on the code in both
  directions. An \<^verbatim>\<open>amount\<close> that is text and not a number is not usable, yet the code
  does not turn to \<^verbatim>\<open>actual\<close>: it converts the text and the load raises
  \<^verbatim>\<open>ValueError\<close>. An \<^verbatim>\<open>amount\<close> that is the number zero is usable, yet the code
  takes \<^verbatim>\<open>actual\<close>, since Python takes zero as false.
\<close>

theorem bill_text_amount_ignores_actual:
  "fst (load_month_data (\<lambda>s. None) ''2025-03''
     [(''budget_2025-03.json'', Json (PDict
        [(''bill_items'', PList [PDict [(''name'', PStr ''Rent''), (''amount'', PStr ''abc''),
            (''actual'', PFloat 50)]])]))])
   = Inl ValueError
   \<and> fst (load_month_data (\<lambda>s. None) ''2025-03''
     [(''budget_2025-03.json'', Json (PDict
        [(''bill_items'', PList [PDict [(''name'', PStr ''Rent''), (''amount'', PFloat 0),
            (''actual'', PFloat 50)]])]))])
   = Inr (PDict [(''rollover'', PFloat 0), (''debt'', PFloat 0), (''income_items'', PList []),
        (''bill_items'', PList [PDict [(''name'', PStr ''Rent''), (''amount'', PFloat 50),
            (''paid'', PBool False)]]),
        (''expense_items'', PList []), (''savings_items'', PList [])])"
  by (simp add: load_month_data_def get_data_file_def normalize_def items_of_def get_float_def
      py_or_def bill_item_def bill_amount_def)

text \<open>
  Claim C4, amended. For every raw bill that is an object, the amount is \<^verbatim>\<open>float\<close> of
  the first of \<^verbatim>\<open>amount\<close> and \<^verbatim>\<open>actual\<close> that Python takes as true, and 0.0 when
  neither is: \<^verbatim>\<open>actual\<close> is the value converted exactly when \<^verbatim>\<open>amount\<close> is absent or
  taken as false (null, zero, \<^verbatim>\<open>false\<close>, an empty string, list or object) and
  \<^verbatim>\<open>actual\<close> is taken as true; an amount taken as true is always the value converted.
  The conversion keeps a float, keeps an integer below \<open>2 ^ 53\<close> in magnitude, and raises
  \<^verbatim>\<open>ValueError\<close> on text that is no number. On the bills of the stored layout the
  normalised bill is the one the specification describes, an amount being usable when
  it is a number other than zero.
\<close>

theorem bill_amount_legacy_key:
  "(map_of kvs ''amount'' = Some a \<and> truthy a \<longrightarrow>
      bill_amount fl (PDict kvs) = py_float fl a)
   \<and> (falsy_or_missing (map_of kvs ''amount'') \<and> map_of kvs ''actual'' = Some b \<and> truthy b \<longrightarrow>
        bill_amount fl (PDict kvs) = py_float fl b)
   \<and> (falsy_or_missing (map_of kvs ''amount'') \<and> falsy_or_missing (map_of kvs ''actual'') \<longrightarrow>
        bill_amount fl (PDict kvs) = Inr 0)
   \<and> py_float fl (PFloat r) = Inr r
   \<and> (\<bar>i\<bar> < 2 ^ 53 \<longrightarrow> py_float fl (PInt i) = Inr (of_int i))
   \<and> (fl s = None \<longrightarrow> py_float fl (PStr s) = Inl ValueError)
   \<and> (bill_ok x \<longrightarrow> bill_item fl x = Inr (bill_dict (spec_bill x)))"
proof -
  have 1: "bill_amount fl (PDict kvs) = py_float fl a"
    if "map_of kvs ''amount'' = Some a" "truthy a"
    using that by (simp add: bill_amount_def)
  have 2: "bill_amount fl (PDict kvs) = py_float fl b"
    if "falsy_or_missing (map_of kvs ''amount'')" "map_of kvs ''actual'' = Some b" "truthy b"
    using that by (cases "map_of kvs ''amount''") (simp_all add: bill_amount_def py_or_def)
  have 3: "bill_amount fl (PDict kvs) = Inr 0"
    if "falsy_or_missing (map_of kvs ''amount'')" "falsy_or_missing (map_of kvs ''actual'')"
    using that
    by (cases "map_of kvs ''amount''"; cases "map_of kvs ''actual''")
       (simp_all add: bill_amount_def py_or_def)
  have 4: "py_float fl (PInt i) = Inr (of_int i)" if "\<bar>i\<bar> < 2 ^ 53"
    using that by (simp add: double_of_int_exact del: power_numeral)
  from 1 2 3 4 show ?thesis
    by (simp add: bill_item_spec del: power_numeral)
qed

text \<open>
  A bill with both keys, a bill with the number zero as amount, a legacy bill, a bill
  with a null amount only, and a bill whose amount is text.
\<close>

theorem bill_amount_legacy_key_witness:
  "bill_amount (\<lambda>s. None) (PDict [(''name'', PStr ''Rent''), (''amount'', PInt 900),
      (''actual'', PFloat 50)]) = Inr 900
   \<and> bill_amount (\<lambda>s. None) (PDict [(''name'', PStr ''Rent''), (''amount'', PInt 0),
      (''actual'', PFloat 50)]) = Inr 50
   \<and> bill_amount (\<lambda>s. None) (PDict [(''name'', PStr ''Rent''), (''actual'', PFloat 50)]) = Inr 50
   \<and> bill_amount (\<lambda>s. None) (PDict [(''name'', PStr ''Rent''), (''amount'', PNone)]) = Inr 0
   \<and> bill_amount (\<lambda>s. None) (PDict [(''name'', PStr ''Rent''), (''amount'', PStr ''abc''),
      (''actual'', PFloat 50)]) = Inl ValueError
   \<and> bill_item (\<lambda>s. None) (PDict [(''name'', PStr ''Rent''), (''amount'', PStr []),
      (''actual'', PInt 50)])
       = Inr (PDict [(''name'', PStr ''Rent''), (''amount'', PFloat 50), (''paid'', PBool False)])"
proof -
  note t = bill_amount_legacy_key [where fl = "\<lambda>s. None" and r = 50 and i = 900 and s = "''abc''"
      and x = "PDict [(''name'', PStr ''Rent''), (''amount'', PStr []), (''actual'', PInt 50)]"]
  have ok: "bill_ok (PDict [(''name'', PStr ''Rent''), (''amount'', PStr []), (''actual'', PInt 50)])"
    by (simp add: bill_ok_def double_of_int_exact)
  from t [of "[(''name'', PStr ''Rent''), (''amount'', PInt 900), (''actual'', PFloat 50)]"
      "PInt 900" "PFloat 50"]
  have 1: "bill_amount (\<lambda>s. None) (PDict [(''name'', PStr ''Rent''), (''amount'', PInt 900),
      (''actual'', PFloat 50)]) = Inr 900" by simp
  from t [of "[(''name'', PStr ''Rent''), (''amount'', PInt 0), (''actual'', PFloat 50)]"
      "PInt 0" "PFloat 50"]
  have 2: "bill_amount (\<lambda>s. None) (PDict [(''name'', PStr ''Rent''), (''amount'', PInt 0),
      (''actual'', PFloat 50)]) = Inr 50" by simp
  from t [of "[(''name'', PStr ''Rent''), (''actual'', PFloat 50)]" "PInt 0" "PFloat 50"]
  have 3: "bill_amount (\<lambda>s. None) (PDict [(''name'', PStr ''Rent''), (''actual'', PFloat 50)])
      = Inr 50" by simp
  from t [of "[(''name'', PStr ''Rent''), (''amount'', PNone)]" "PInt 0" "PFloat 50"]
  have 4: "bill_amount (\<lambda>s. None) (PDict [(''name'', PStr ''Rent''), (''amount'', PNone)]) = Inr 0"
    by simp
  from t [of "[(''name'', PStr ''Rent''), (''amount'', PStr ''abc''), (''actual'', PFloat 50)]"
      "PStr ''abc''" "PFloat 50"]
  have 5: "bill_amount (\<lambda>s. None) (PDict [(''name'', PStr ''Rent''), (''amount'', PStr ''abc''),
      (''actual'', PFloat 50)]) = Inl ValueError" by simp
  from t [of "[]" "PInt 0" "PFloat 50"] ok
  have 6: "bill_item (\<lambda>s. None) (PDict [(''name'', PStr ''Rent''), (''amount'', PStr []),
      (''actual'', PInt 50)])
       = Inr (PDict [(''name'', PStr ''Rent''), (''amount'', PFloat 50), (''paid'', PBool False)])"
    by (simp add: bill_dict_def spec_bill_def spec_bill_amount_def double_of_int_exact)
  from 1 2 3 4 5 6 show ?thesis by blast
qed

lemma month_row_month_dict: "month_row fl ym (month_dict m) = Inr (spec_row ym m)"
  by (simp add: month_row_def sum_field_month_dict get_float_month_dict spec_row_def)

lemma year_loop_map_err:
  "year_loop fl yms files =
     (map_err (\<lambda>ym. ebind (fst (load_month_data fl ym files)) (month_row fl ym)) yms, files)"
proof (induction yms)
  case Nil
  show ?case by simp
next
  case (Cons ym yms)
  obtain res where l: "load_month_data fl ym files = (res, files)"
    using load_month_data_files [of fl ym files] by (cases "load_month_data fl ym files") simp
  show ?case
    by (cases res) (simp_all add: l Cons.IH split: sum.splits)
qed

lemma map_err_Inr_member:
  assumes "map_err f xs = Inr ys" and "y \<in> set ys"
  shows "\<exists>x \<in> set xs. f x = Inr y"
  using assms by (induction xs arbitrary: ys) (auto split: sum.splits)

lemma map_err_all_Inr:
  assumes "\<And>x. x \<in> set xs \<Longrightarrow> f x = Inr (g x)"
  shows "map_err f xs = Inr (map g xs)"
  using assms by (induction xs) simp_all

lemma loaded_row:
  assumes "fst (load_month_data fl ym files) = Inr d"
  shows "\<exists>m. d = month_dict m \<and> ebind (fst (load_month_data fl ym files)) (month_row fl ym)
      = Inr (spec_row ym m)"
proof -
  from load_month_data_shape [OF assms] obtain m where "d = month_dict m" ..
  with assms show ?thesis by (auto simp: month_row_month_dict)
qed

subsection \<open>Month keys and the loop over a year\<close>


lemma is_digit_not_dash: "is_digit c \<Longrightarrow> c \<noteq> CHR ''-''"
  by (auto simp: is_digit_def)

lemma month_key_explode:
  assumes "month_key k"
  obtains a b c d e f where "k = [a, b, c, d, CHR ''-'', e, f]"
    and "is_digit a" "is_digit b" "is_digit c" "is_digit d" "is_digit e" "is_digit f"
proof -
  from assms have len: "length k = 7" by (simp add: month_key_def)
  then obtain a b c d x e f where k: "k = [a, b, c, d, x, e, f]"
    by (auto simp: eval_nat_numeral length_Suc_conv)
  with assms that show ?thesis by (auto simp: month_key_def)
qed

lemma year_component_month_key: "month_key k \<Longrightarrow> year_component k = take 4 k"
  by (erule month_key_explode) (simp add: year_component_def is_digit_not_dash)

lemma startswith_year:
  assumes "month_key k"
  shows "startswith k (s @ ''-'') \<longleftrightarrow> year_component k = s"
proof -
  from assms obtain a b c d e f where k: "k = [a, b, c, d, CHR ''-'', e, f]"
    and dig: "is_digit a" "is_digit b" "is_digit c" "is_digit d" "is_digit e" "is_digit f"
    by (rule month_key_explode)
  from dig have dg: "a \<noteq> CHR ''-''" "b \<noteq> CHR ''-''" "c \<noteq> CHR ''-''" "d \<noteq> CHR ''-''"
      "e \<noteq> CHR ''-''" "f \<noteq> CHR ''-''"
    by (simp_all add: is_digit_not_dash)
  have yc: "year_component k = [a, b, c, d]"
    using k dg by (simp add: year_component_def)
  show ?thesis
  proof
    assume "year_component k = s"
    with yc have "s = [a, b, c, d]" by simp
    then show "startswith k (s @ ''-'')" by (simp add: startswith_def k)
  next
    assume "startswith k (s @ ''-'')"
    then have t: "take (Suc (length s)) k = s @ ''-''"
      by (simp add: startswith_def)
    have lk: "length k = 7" using k by simp
    have "length (take (Suc (length s)) k) = length (s @ ''-'')"
      using t by (rule arg_cong)
    then have len: "length s < 7" using lk by simp
    have "take (Suc (length s)) k ! length s = (s @ ''-'') ! length s"
      using t by (rule arg_cong)
    then have dash: "k ! length s = CHR ''-''"
      by (simp only: nth_take lessI nth_append_length)
    from len consider "length s = 0" | "length s = 1" | "length s = 2" | "length s = 3"
      | "length s = 4" | "length s = 5" | "length s = 6" by linarith
    then have "length s = 4"
    proof cases
      case 1 with dash dg show ?thesis by (simp add: k)
    next
      case 2 with dash dg show ?thesis by (simp add: k)
    next
      case 3 with dash dg show ?thesis by (simp add: k)
    next
      case 4 with dash dg show ?thesis by (simp add: k)
    next
      case 5 then show ?thesis .
    next
      case 6 with dash dg show ?thesis by (simp add: k)
    next
      case 7 with dash dg show ?thesis by (simp add: k)
    qed
    with t have "[a, b, c, d, CHR ''-''] = s @ ''-''" by (simp add: k)
    then have "s = [a, b, c, d]" by (metis butlast_snoc butlast.simps(2) list.distinct(1))
    with yc show "year_component k = s" by simp
  qed
qed

lemma match_here_month_key: "match_here s = Some g \<Longrightarrow> month_key g"
  by (auto simp: match_here_def month_key_def Let_def split: if_splits)

lemma re_findall_month_key: "g \<in> set (re_findall s) \<Longrightarrow> month_key g"
  by (induction s rule: re_findall.induct) (auto split: option.splits dest: match_here_month_key)

lemma saved_months_loop_month_key: "k \<in> set (saved_months_loop names) \<Longrightarrow> month_key k"
proof (induction names)
  case Nil
  then show ?case by simp
next
  case (Cons name names)
  show ?case
  proof (cases "re_findall name")
    case Nil
    with Cons show ?thesis by simp
  next
    case (Cons m0 ms)
    then have "month_key m0" using re_findall_month_key [of m0 name] by simp
    with Cons Cons.prems Cons.IH show ?thesis by auto
  qed
qed

lemma list_saved_months_month_key: "k \<in> set (list_saved_months files) \<Longrightarrow> month_key k"
  by (auto simp: list_saved_months_def dest: saved_months_loop_month_key)


lemma year_filter:
  "filter (\<lambda>m. startswith m (str_of_int y @ ''-'')) (list_saved_months files) =
   filter (\<lambda>m. year_component m = str_of_int y) (list_saved_months files)"
  by (rule filter_cong) (simp_all add: startswith_year list_saved_months_month_key)

lemma aggregate_year_map_err:
  "aggregate_year fl y files =
     (map_err (\<lambda>ym. ebind (fst (load_month_data fl ym files)) (month_row fl ym))
        (filter (\<lambda>m. year_component m = str_of_int y) (list_saved_months files)), files)"
  by (simp add: aggregate_year_def year_loop_map_err year_filter)


lemma totals_of_month_dict:
  "calculate_totals fl (month_dict m) =
     Inr (Income (spec_row ym m), Bills (spec_row ym m), Expenses (spec_row ym m),
          Saved (spec_row ym m), debt m, rollover m, Left (spec_row ym m) + rollover m)"
  by (simp add: calculate_totals_def sum_field_month_dict get_float_month_dict spec_row_def)

lemma row_of_loaded:
  assumes "ebind (fst (load_month_data fl ym files)) (month_row fl ym) = Inr r"
  shows "\<exists>m. fst (load_month_data fl ym files) = Inr (month_dict m) \<and> r = spec_row ym m"
proof -
  from assms obtain d where d: "fst (load_month_data fl ym files) = Inr d"
    by (auto simp: ebind_eq_Inr)
  from loaded_row [OF d] assms d show ?thesis by auto
qed










subsection \<open>The row of a month in the year summary (C5)\<close>

text \<open>
  Claim C5. Every row that \<^verbatim>\<open>aggregate_year\<close> produces for a stored month has
  left = income - expenses - bills - saved - debt. The rollover of the record is not
  part of it: the row is the same whatever the rollover is, while the left amount that
  \<^verbatim>\<open>calculate_totals\<close> gives for the same record, from the same sums, is the row's
  left plus the rollover.
\<close>

theorem year_row_left_without_rollover:
  assumes "fst (aggregate_year fl y files) = Inr rows" and "r \<in> set rows"
  shows "Left r = Income r - Expenses r - Bills r - Saved r - Debt r
    \<and> (\<exists>m. fst (load_month_data fl (Month r) files) = Inr (month_dict m)
          \<and> calculate_totals fl (month_dict m) =
              Inr (Income r, Bills r, Expenses r, Saved r, Debt r, rollover m,
                   Left r + rollover m)
          \<and> month_row fl (Month r) (month_dict (m\<lparr>rollover := x\<rparr>)) = Inr r)"
proof -
  from assms obtain ym where
    "ebind (fst (load_month_data fl ym files)) (month_row fl ym) = Inr r"
    by (auto simp: aggregate_year_map_err dest: map_err_Inr_member)
  from row_of_loaded [OF this] obtain m where
    m: "fst (load_month_data fl ym files) = Inr (month_dict m)" and r: "r = spec_row ym m"
    by blast
  have "Month r = ym" by (simp add: r spec_row_def)
  moreover have "Left r = Income r - Expenses r - Bills r - Saved r - Debt r"
    by (simp add: r spec_row_def)
  moreover have "calculate_totals fl (month_dict m) =
      Inr (Income r, Bills r, Expenses r, Saved r, Debt r, rollover m, Left r + rollover m)"
    unfolding r using totals_of_month_dict [of fl m ym] by (simp add: spec_row_def)
  moreover have "month_row fl ym (month_dict (m\<lparr>rollover := x\<rparr>)) = Inr r"
    by (simp add: month_row_month_dict r spec_row_def)
  ultimately show ?thesis using m by auto
qed

theorem year_row_left_without_rollover_witness:
  "fst (aggregate_year (\<lambda>s. None) 2025
     [(''budget_2025-03.json'', Json (PDict [(''rollover'', PFloat 50), (''debt'', PFloat 100),
        (''income_items'', PList [PDict [(''name'', PStr ''Paycheck''), (''amount'', PFloat 3000)]]),
        (''bill_items'', PList [PDict [(''name'', PStr ''Rent''), (''amount'', PFloat 1200)]]),
        (''expense_items'', PList [PDict [(''name'', PStr ''Groceries''), (''spent'', PFloat 400)]]),
        (''savings_items'', PList [PDict [(''name'', PStr ''Fund''), (''saved'', PFloat 200)]])]))])
   = Inr [\<lparr>Month = ''2025-03'', Income = 3000, Expenses = 400, Bills = 1200, Saved = 200,
           Debt = 100, Left = 1100\<rparr>]
   \<and> Left \<lparr>Month = ''2025-03'', Income = 3000, Expenses = 400, Bills = 1200, Saved = 200,
           Debt = 100, Left = 1100\<rparr> = 3000 - 400 - 1200 - 200 - (100 :: real)"
proof -
  have a: "fst (aggregate_year (\<lambda>s. None) 2025
     [(''budget_2025-03.json'', Json (PDict [(''rollover'', PFloat 50), (''debt'', PFloat 100),
        (''income_items'', PList [PDict [(''name'', PStr ''Paycheck''), (''amount'', PFloat 3000)]]),
        (''bill_items'', PList [PDict [(''name'', PStr ''Rent''), (''amount'', PFloat 1200)]]),
        (''expense_items'', PList [PDict [(''name'', PStr ''Groceries''), (''spent'', PFloat 400)]]),
        (''savings_items'', PList [PDict [(''name'', PStr ''Fund''), (''saved'', PFloat 200)]])]))])
   = Inr [\<lparr>Month = ''2025-03'', Income = 3000, Expenses = 400, Bills = 1200, Saved = 200,
           Debt = 100, Left = 1100\<rparr>]"
    by code_simp
  have b: "\<lparr>Month = ''2025-03'', Income = 3000, Expenses = 400, Bills = 1200, Saved = 200,
           Debt = 100, Left = 1100\<rparr> \<in> set [\<lparr>Month = ''2025-03'', Income = 3000,
           Expenses = 400, Bills = 1200, Saved = 200, Debt = 100, Left = 1100 :: real\<rparr>]"
    by simp
  from year_row_left_without_rollover [OF a b] a show ?thesis by simp
qed


subsection \<open>The rows of a year (C6)\<close>





lemma negative_number_truthy:
  assumes "spec_usable (Some v)" and "number_value v < 0"
  shows "truthy v"
  using assms by (cases v) auto

lemma get_float_truthy:
  assumes "map_of kvs k = Some v" and "truthy v"
  shows "get_float fl (PDict kvs) k = py_float fl v"
  using assms by (simp add: get_float_def py_or_def)

lemma bill_amount_truthy:
  assumes "map_of kvs ''amount'' = Some v" and "truthy v"
  shows "bill_amount fl (PDict kvs) = py_float fl v"
  using assms by (simp add: bill_amount_def)

subsection \<open>Negative amounts (C10)\<close>

text \<open>
  Claim C10, as stated: every raw line item whose \<^verbatim>\<open>amount\<close>, \<^verbatim>\<open>spent\<close> or
  \<^verbatim>\<open>saved\<close> field is a finite negative number is normalised to an item that carries
  that same value. It fails on the code for integers that no double represents: the
  amount -9007199254740993 is normalised to -9007199254740992.0, and an integer amount
  beyond the range of a double makes the load raise \<^verbatim>\<open>OverflowError\<close>.
\<close>

theorem negative_integer_is_rounded:
  "income_item (\<lambda>s. None)
     (PDict [(''name'', PStr ''Refund''), (''amount'', PInt (- 9007199254740993))])
   = Inr (PDict [(''name'', PStr ''Refund''), (''amount'', PFloat (- 9007199254740992))])
   \<and> (- 9007199254740993 :: real) \<noteq> - 9007199254740992
   \<and> fst (load_month_data (\<lambda>s. None) ''2025-03''
       [(''budget_2025-03.json'', Json (PDict
          [(''income_items'', PList [PDict [(''name'', PStr ''Refund''),
              (''amount'', PInt (- (10 ^ 400)))]])]))])
     = Inl OverflowError"
  by (simp add: load_month_data_def get_data_file_def normalize_def items_of_def get_float_def
      py_or_def income_item_def double_of_int_round_example double_of_int_overflow)

text \<open>
  Claim C10, amended. The normalisation does not enforce that amounts are non-negative.
  For every raw line item (an object) whose \<^verbatim>\<open>amount\<close>, \<^verbatim>\<open>spent\<close> or \<^verbatim>\<open>saved\<close>
  field is a negative number that \<^verbatim>\<open>float\<close> represents exactly (every negative float,
  and every negative integer below \<open>2 ^ 53\<close> in magnitude), the normalised item carries
  that value; and a month record with such items has them in the sums of
  \<^verbatim>\<open>calculate_totals\<close> and of the row that \<^verbatim>\<open>aggregate_year\<close> computes, where each
  lowers its category's sum. Any other negative integer is normalised to \<^verbatim>\<open>float\<close> of
  it: the nearest double, or \<^verbatim>\<open>OverflowError\<close>.
\<close>

theorem negative_amounts_are_kept:
  assumes "spec_usable (Some v)" and "py_float fl v = Inr (number_value v)"
    and "number_value v = a" and "a < 0"
  shows "(map_of kvs ''amount'' = Some v \<longrightarrow>
            income_item fl (PDict kvs) = Inr (income_dict (spec_name (map_of kvs ''name''), a)))
    \<and> (map_of kvs ''amount'' = Some v \<longrightarrow>
            bill_item fl (PDict kvs) =
              Inr (bill_dict (spec_name (map_of kvs ''name''), a, spec_paid (map_of kvs ''paid''))))
    \<and> (map_of kvs ''spent'' = Some v \<longrightarrow>
            expense_item fl (PDict kvs) = Inr (expense_dict (spec_name (map_of kvs ''name''), a)))
    \<and> (map_of kvs ''saved'' = Some v \<longrightarrow>
            savings_item fl (PDict kvs) = Inr (savings_dict (spec_name (map_of kvs ''name''), a)))
    \<and> calculate_totals fl (month_dict \<lparr>rollover = rollover m, debt = debt m,
          income_items = (n1, a) # income_items m, bill_items = (n2, a, p) # bill_items m,
          expense_items = (n3, a) # expense_items m, savings_items = (n4, a) # savings_items m\<rparr>)
        = Inr (a + sum_list (map snd (income_items m)),
               a + sum_list (map (\<lambda>it. fst (snd it)) (bill_items m)),
               a + sum_list (map snd (expense_items m)),
               a + sum_list (map snd (savings_items m)),
               debt m, rollover m,
               a + sum_list (map snd (income_items m)) + rollover m
                 - (a + sum_list (map snd (expense_items m)))
                 - (a + sum_list (map (\<lambda>it. fst (snd it)) (bill_items m)))
                 - (a + sum_list (map snd (savings_items m))) - debt m)
    \<and> month_row fl ym (month_dict \<lparr>rollover = rollover m, debt = debt m,
          income_items = (n1, a) # income_items m, bill_items = (n2, a, p) # bill_items m,
          expense_items = (n3, a) # expense_items m, savings_items = (n4, a) # savings_items m\<rparr>)
        = Inr \<lparr>Month = ym,
               Income = a + sum_list (map snd (income_items m)),
               Expenses = a + sum_list (map snd (expense_items m)),
               Bills = a + sum_list (map (\<lambda>it. fst (snd it)) (bill_items m)),
               Saved = a + sum_list (map snd (savings_items m)),
               Debt = debt m,
               Left = a + sum_list (map snd (income_items m))
                 - (a + sum_list (map snd (expense_items m)))
                 - (a + sum_list (map (\<lambda>it. fst (snd it)) (bill_items m)))
                 - (a + sum_list (map snd (savings_items m))) - debt m\<rparr>
    \<and> py_float fl (PFloat r) = Inr (number_value (PFloat r))
    \<and> (\<bar>i\<bar> < 2 ^ 53 \<longrightarrow> py_float fl (PInt i) = Inr (number_value (PInt i)))
    \<and> (j < 0 \<and> map_of kvs' ''amount'' = Some (PInt j) \<longrightarrow>
          income_item fl (PDict kvs') =
            ebind (double_of_int j)
              (\<lambda>x. Inr (income_dict (spec_name (map_of kvs' ''name''), x))))"
proof -
  have tr: "truthy v" using assms(1,3,4) negative_number_truthy [of v] by simp
  have gf: "get_float fl (PDict kvs) k = Inr a" if "map_of kvs k = Some v" for k
    using get_float_truthy [OF that tr, of fl] assms(2,3) by simp
  have ba: "bill_amount fl (PDict kvs) = Inr a" if "map_of kvs ''amount'' = Some v"
    using bill_amount_truthy [OF that tr, of fl] assms(2,3) by simp
  have 1: "income_item fl (PDict kvs) = Inr (income_dict (spec_name (map_of kvs ''name''), a))"
    if "map_of kvs ''amount'' = Some v"
    using gf [OF that] by (cases "map_of kvs ''name''") (simp_all add: income_item_def income_dict_def)
  have 2: "bill_item fl (PDict kvs) =
      Inr (bill_dict (spec_name (map_of kvs ''name''), a, spec_paid (map_of kvs ''paid'')))"
    if "map_of kvs ''amount'' = Some v"
    using ba [OF that]
    by (cases "map_of kvs ''name''"; cases "map_of kvs ''paid''")
       (simp_all add: bill_item_def bill_dict_def)
  have 3: "expense_item fl (PDict kvs) = Inr (expense_dict (spec_name (map_of kvs ''name''), a))"
    if "map_of kvs ''spent'' = Some v"
    using gf [OF that] by (cases "map_of kvs ''name''") (simp_all add: expense_item_def expense_dict_def)
  have 4: "savings_item fl (PDict kvs) = Inr (savings_dict (spec_name (map_of kvs ''name''), a))"
    if "map_of kvs ''saved'' = Some v"
    using gf [OF that] by (cases "map_of kvs ''name''") (simp_all add: savings_item_def savings_dict_def)
  have 5: "calculate_totals fl (month_dict \<lparr>rollover = rollover m, debt = debt m,
          income_items = (n1, a) # income_items m, bill_items = (n2, a, p) # bill_items m,
          expense_items = (n3, a) # expense_items m, savings_items = (n4, a) # savings_items m\<rparr>)
        = Inr (a + sum_list (map snd (income_items m)),
               a + sum_list (map (\<lambda>it. fst (snd it)) (bill_items m)),
               a + sum_list (map snd (expense_items m)),
               a + sum_list (map snd (savings_items m)),
               debt m, rollover m,
               a + sum_list (map snd (income_items m)) + rollover m
                 - (a + sum_list (map snd (expense_items m)))
                 - (a + sum_list (map (\<lambda>it. fst (snd it)) (bill_items m)))
                 - (a + sum_list (map snd (savings_items m))) - debt m)"
    by (simp add: calculate_totals_def sum_field_month_dict get_float_month_dict)
  have 6: "month_row fl ym (month_dict \<lparr>rollover = rollover m, debt = debt m,
          income_items = (n1, a) # income_items m, bill_items = (n2, a, p) # bill_items m,
          expense_items = (n3, a) # expense_items m, savings_items = (n4, a) # savings_items m\<rparr>)
        = Inr \<lparr>Month = ym,
               Income = a + sum_list (map snd (income_items m)),
               Expenses = a + sum_list (map snd (expense_items m)),
               Bills = a + sum_list (map (\<lambda>it. fst (snd it)) (bill_items m)),
               Saved = a + sum_list (map snd (savings_items m)),
               Debt = debt m,
               Left = a + sum_list (map snd (income_items m))
                 - (a + sum_list (map snd (expense_items m)))
                 - (a + sum_list (map (\<lambda>it. fst (snd it)) (bill_items m)))
                 - (a + sum_list (map snd (savings_items m))) - debt m\<rparr>"
    by (simp add: month_row_month_dict spec_row_def)
  have 7: "py_float fl (PInt i) = Inr (number_value (PInt i))" if "\<bar>i\<bar> < 2 ^ 53"
    using that by (simp add: double_of_int_exact del: power_numeral)
  have 8: "income_item fl (PDict kvs') =
            ebind (double_of_int j)
              (\<lambda>x. Inr (income_dict (spec_name (map_of kvs' ''name''), x)))"
    if "j < 0" "map_of kvs' ''amount'' = Some (PInt j)"
    using that
    by (cases "map_of kvs' ''name''")
       (simp_all add: income_item_def income_dict_def get_float_def py_or_def)
  have 9: "py_float fl (PFloat r) = Inr (number_value (PFloat r))" by simp
  from 1 2 3 4 5 6 7 8 9 show ?thesis by blast
qed

text \<open>
  A stored month with an income of -500 and a spending of -20: the load keeps both, and
  the totals and the row of the year are computed from them.
\<close>

theorem negative_amounts_are_kept_witness:
  "spec_usable (Some (PInt (- 500)))
   \<and> py_float (\<lambda>s. None) (PInt (- 500)) = Inr (number_value (PInt (- 500)))
   \<and> number_value (PInt (- 500)) = - 500 \<and> (- 500 :: real) < 0
   \<and> income_item (\<lambda>s. None) (PDict [(''name'', PStr ''Refund''), (''amount'', PInt (- 500))])
       = Inr (PDict [(''name'', PStr ''Refund''), (''amount'', PFloat (- 500))])
   \<and> fst (load_month_data (\<lambda>s. None) ''2025-03''
       [(''budget_2025-03.json'', Json (PDict
          [(''income_items'', PList [PDict [(''name'', PStr ''Refund''), (''amount'', PInt (- 500))]]),
           (''expense_items'', PList [PDict [(''name'', PStr ''Food''), (''spent'', PFloat (- 20))]])]))])
     = Inr (PDict [(''rollover'', PFloat 0), (''debt'', PFloat 0),
          (''income_items'', PList [PDict [(''name'', PStr ''Refund''), (''amount'', PFloat (- 500))]]),
          (''bill_items'', PList []),
          (''expense_items'', PList [PDict [(''name'', PStr ''Food''), (''spent'', PFloat (- 20))]]),
          (''savings_items'', PList [])])
   \<and> calculate_totals (\<lambda>s. None)
        (PDict [(''rollover'', PFloat 0), (''debt'', PFloat 0),
          (''income_items'', PList [PDict [(''name'', PStr ''Refund''), (''amount'', PFloat (- 500))]]),
          (''bill_items'', PList []),
          (''expense_items'', PList [PDict [(''name'', PStr ''Food''), (''spent'', PFloat (- 20))]]),
          (''savings_items'', PList [])])
     = Inr (- 500, 0, - 20, 0, 0, 0, - 480)
   \<and> fst (aggregate_year (\<lambda>s. None) 2025
       [(''budget_2025-03.json'', Json (PDict
          [(''income_items'', PList [PDict [(''name'', PStr ''Refund''), (''amount'', PInt (- 500))]]),
           (''expense_items'', PList [PDict [(''name'', PStr ''Food''), (''spent'', PFloat (- 20))]])]))])
     = Inr [\<lparr>Month = ''2025-03'', Income = - 500, Expenses = - 20, Bills = 0, Saved = 0,
              Debt = 0, Left = - 480\<rparr>]"
proof -
  have h: "spec_usable (Some (PInt (- 500)))"
    "py_float (\<lambda>s. None) (PInt (- 500)) = Inr (number_value (PInt (- 500)))"
    "number_value (PInt (- 500)) = - 500" "(- 500 :: real) < 0"
    by (simp_all add: double_of_int_exact)
  have l: "fst (load_month_data (\<lambda>s. None) ''2025-03''
       [(''budget_2025-03.json'', Json (PDict
          [(''income_items'', PList [PDict [(''name'', PStr ''Refund''), (''amount'', PInt (- 500))]]),
           (''expense_items'', PList [PDict [(''name'', PStr ''Food''), (''spent'', PFloat (- 20))]])]))])
     = Inr (PDict [(''rollover'', PFloat 0), (''debt'', PFloat 0),
          (''income_items'', PList [PDict [(''name'', PStr ''Refund''), (''amount'', PFloat (- 500))]]),
          (''bill_items'', PList []),
          (''expense_items'', PList [PDict [(''name'', PStr ''Food''), (''spent'', PFloat (- 20))]]),
          (''savings_items'', PList [])])"
    by (simp add: load_month_data_def get_data_file_def normalize_def get_float_def py_or_def
        items_of_def income_item_def expense_item_def double_of_int_exact)
  have t: "calculate_totals (\<lambda>s. None)
        (PDict [(''rollover'', PFloat 0), (''debt'', PFloat 0),
          (''income_items'', PList [PDict [(''name'', PStr ''Refund''), (''amount'', PFloat (- 500))]]),
          (''bill_items'', PList []),
          (''expense_items'', PList [PDict [(''name'', PStr ''Food''), (''spent'', PFloat (- 20))]]),
          (''savings_items'', PList [])])
     = Inr (- 500, 0, - 20, 0, 0, 0, - 480)"
    by (simp add: calculate_totals_def sum_field_def items_of_def get_float_def py_or_def
        py_sum_def)
  have keys: "list_saved_months
       [(''budget_2025-03.json'', Json (PDict
          [(''income_items'', PList [PDict [(''name'', PStr ''Refund''), (''amount'', PInt (- 500))]]),
           (''expense_items'', PList [PDict [(''name'', PStr ''Food''), (''spent'', PFloat (- 20))]])]))]
     = [''2025-03'']"
    by (simp add: list_saved_months_def glob_budget_def match_here_def is_digit_def)
  have ym: "year_component ''2025-03'' = str_of_int 2025"
    by code_simp
  have y: "fst (aggregate_year (\<lambda>s. None) 2025
       [(''budget_2025-03.json'', Json (PDict
          [(''income_items'', PList [PDict [(''name'', PStr ''Refund''), (''amount'', PInt (- 500))]]),
           (''expense_items'', PList [PDict [(''name'', PStr ''Food''), (''spent'', PFloat (- 20))]])]))])
     = Inr [\<lparr>Month = ''2025-03'', Income = - 500, Expenses = - 20, Bills = 0, Saved = 0,
              Debt = 0, Left = - 480\<rparr>]"
    by (simp add: aggregate_year_map_err keys ym l month_row_def sum_field_def items_of_def
        get_float_def py_or_def py_sum_def)
  from negative_amounts_are_kept [OF h, THEN conjunct1,
      of "[(''name'', PStr ''Refund''), (''amount'', PInt (- 500))]"]
  have "income_item (\<lambda>s. None) (PDict [(''name'', PStr ''Refund''), (''amount'', PInt (- 500))])
       = Inr (PDict [(''name'', PStr ''Refund''), (''amount'', PFloat (- 500))])"
    by (simp add: income_dict_def)
  with h l t y show ?thesis by blast
qed

end
